theory Spec2Isabelle
  imports Complex_Main
begin

section \<open>Tensors, errors and variables\<close>

text \<open>
  The target blocks of \<^verbatim>\<open>finetune/nn/target_blocks.py\<close> build TensorFlow graphs. A dense
  tensor is modelled by nested lists of real numbers (rank one, two and three), the
  values of the graph by exact real arithmetic. A loss that the code leaves as a Python
  float or reduces to one number is a \<open>Scalar\<close>; a loss with one entry per batch row is a
  \<open>Vector\<close>; an unreduced element-wise loss is a \<open>Matrix\<close>. Where TensorFlow
  computes \<open>0 / 0\<close> (the mean of an empty tensor, a mask divided by a length of zero) the
  scalar is \<open>NotANumber\<close>.
\<close>

type_synonym vec = "real list"
type_synonym mat = "real list list"
type_synonym tensor3 = "real list list list"

datatype tensor = Scalar real | Vector vec | Matrix mat | NotANumber

datatype error =
    FinetuneError string
  | NameError string
  | ValueError string
  | IndexError
  | InvalidArgumentError

fun shape :: "tensor \<Rightarrow> nat list" where
  "shape (Scalar x) = []"
| "shape (Vector v) = [length v]"
| "shape (Matrix m) = [length m, (case m of [] \<Rightarrow> 0 | r # _ \<Rightarrow> length r)]"
| "shape NotANumber = []"

definition rectangular :: "nat \<Rightarrow> 'a list list \<Rightarrow> bool" where
  "rectangular n m = list_all (\<lambda>r. length r = n) m"

definition has_shape2 :: "nat \<Rightarrow> nat \<Rightarrow> 'a list list \<Rightarrow> bool" where
  "has_shape2 r c m = (length m = r \<and> rectangular c m)"

definition has_shape3 :: "nat \<Rightarrow> nat \<Rightarrow> nat \<Rightarrow> 'a list list list \<Rightarrow> bool" where
  "has_shape3 b s d t = (length t = b \<and> list_all (has_shape2 s d) t)"

text \<open>
  \<^verbatim>\<open>tf.compat.v1.get_variable(name, shape)\<close>: the learned variables live in a store
  keyed by name. A variable is handed out when its stored value has the requested
  shape; TensorFlow raises \<^verbatim>\<open>ValueError\<close> otherwise.
\<close>

record variables =
  matrices :: "string \<rightharpoonup> mat"
  vectors :: "string \<rightharpoonup> vec"

definition get_variable2 :: "variables \<Rightarrow> string \<Rightarrow> nat \<Rightarrow> nat \<Rightarrow> error + mat" where
  "get_variable2 vars name r c =
     (case matrices vars name of
        None \<Rightarrow> Inl (ValueError name)
      | Some m \<Rightarrow> if has_shape2 r c m then Inr m else Inl (ValueError name))"

definition get_variable1 :: "variables \<Rightarrow> string \<Rightarrow> nat \<Rightarrow> error + vec" where
  "get_variable1 vars name n =
     (case vectors vars name of
        None \<Rightarrow> Inl (ValueError name)
      | Some v \<Rightarrow> if length v = n then Inr v else Inl (ValueError name))"

subsection \<open>Elementary tensor operations\<close>

definition dot :: "vec \<Rightarrow> vec \<Rightarrow> real" where
  "dot x y = sum_list (map2 (*) x y)"

definition transpose_rows :: "nat \<Rightarrow> mat \<Rightarrow> mat" where
  "transpose_rows c w = map (\<lambda>j. map (\<lambda>r. r ! j) w) [0..<c]"

text \<open>One row of \<^verbatim>\<open>tf.matmul(x, w) + b\<close> for \<open>w\<close> of shape \<open>[nx, ny]\<close>.\<close>

definition affine_row :: "mat \<Rightarrow> vec \<Rightarrow> vec \<Rightarrow> vec" where
  "affine_row w b x = map2 (+) (map (dot x) (transpose_rows (length b) w)) b"

definition reduce_sum :: "vec \<Rightarrow> real" where
  "reduce_sum v = sum_list v"

definition reduce_sum2 :: "mat \<Rightarrow> real" where
  "reduce_sum2 m = sum_list (map sum_list m)"

definition reduce_sum3 :: "tensor3 \<Rightarrow> real" where
  "reduce_sum3 t = sum_list (map reduce_sum2 t)"

definition size2 :: "'a list list \<Rightarrow> nat" where
  "size2 m = sum_list (map length m)"

section \<open>Class weights\<close>

text \<open>
  \<^verbatim>\<open>_apply_class_weight\<close>: the weight of a row is looked up through its one-hot
  target, \<^verbatim>\<open>reduce_sum(class_weights * targets, axis=1)\<close>, and the weights are rescaled by
  \<^verbatim>\<open>reduce_prod(shape(weights)) / reduce_sum(weights)\<close>. The losses of the classifier
  have shape \<open>[batch]\<close> and are multiplied by \<^verbatim>\<open>expand_dims(weights, 1)\<close> of shape
  \<open>[batch, 1]\<close>, which broadcasts to \<open>[batch, batch]\<close>.
\<close>

definition class_weight_lookup :: "vec \<Rightarrow> mat \<Rightarrow> vec" where
  "class_weight_lookup class_weights targets = map (\<lambda>t. reduce_sum (map2 (*) class_weights t)) targets"

definition renormalize :: "vec \<Rightarrow> vec" where
  "renormalize weights = map (\<lambda>w. w * (real (length weights) / reduce_sum weights)) weights"

definition single_label_weights :: "vec \<Rightarrow> mat \<Rightarrow> vec" where
  "single_label_weights class_weights targets = renormalize (class_weight_lookup class_weights targets)"

definition apply_class_weight :: "vec \<Rightarrow> mat \<Rightarrow> vec option \<Rightarrow> tensor" where
  "apply_class_weight losses targets class_weights =
     (case class_weights of
        None \<Rightarrow> Vector losses
      | Some cw \<Rightarrow> Matrix (map (\<lambda>w. map (\<lambda>l. l * w) losses) (single_label_weights cw targets)))"

text \<open>
  \<^verbatim>\<open>_apply_multilabel_class_weight\<close>: the weights keep the shape \<open>[batch, n_targets]\<close> of
  the targets, a positive entry weighs \<open>class_weights[c]\<close> and a negative one \<open>1\<close>; the
  rescaling factor is again the number of entries of \<open>weights\<close> over their sum.
\<close>

definition multilabel_lookup :: "vec \<Rightarrow> mat \<Rightarrow> mat" where
  "multilabel_lookup class_weights targets =
     map (\<lambda>t. map2 (\<lambda>c y. c * y + 1 * (1 - y)) class_weights t) targets"

definition renormalize2 :: "mat \<Rightarrow> mat" where
  "renormalize2 weights = map (map (\<lambda>w. w * (real (size2 weights) / reduce_sum2 weights))) weights"

definition multilabel_weights :: "vec \<Rightarrow> mat \<Rightarrow> mat" where
  "multilabel_weights class_weights targets = renormalize2 (multilabel_lookup class_weights targets)"

definition apply_multilabel_class_weight :: "mat \<Rightarrow> mat \<Rightarrow> vec option \<Rightarrow> mat" where
  "apply_multilabel_class_weight losses targets class_weights =
     (case class_weights of
        None \<Rightarrow> losses
      | Some cw \<Rightarrow> map2 (map2 (*)) losses (multilabel_weights cw targets))"

text \<open>
  \<^verbatim>\<open>class_reweighting\<close>: the forward value is the identity; the gradient \<open>g\<close> of shape
  \<open>[batch, seq, n_targets]\<close> is multiplied by the per-token weights of shape
  \<open>[batch, seq, 1]\<close> and then by \<^verbatim>\<open>tf.norm(g) / tf.norm(new_g)\<close>.
\<close>

definition norm3 :: "tensor3 \<Rightarrow> real" where
  "norm3 g = sqrt (reduce_sum3 (map (map (map (\<lambda>x. x * x))) g))"

definition scale3 :: "real \<Rightarrow> tensor3 \<Rightarrow> tensor3" where
  "scale3 r g = map (map (map (\<lambda>x. x * r))) g"

definition token_mul :: "tensor3 \<Rightarrow> mat \<Rightarrow> tensor3" where
  "token_mul g per_token_weights = map2 (map2 (\<lambda>row w. map (\<lambda>x. x * w) row)) g per_token_weights"

definition class_reweighting_forward :: "mat \<Rightarrow> tensor3 \<Rightarrow> tensor3" where
  "class_reweighting_forward per_token_weights logits = logits"

definition class_reweighting_grad :: "mat \<Rightarrow> tensor3 \<Rightarrow> tensor3" where
  "class_reweighting_grad per_token_weights g =
     (let new_g = token_mul g per_token_weights;
          ratio = norm3 g / norm3 new_g
      in scale3 ratio new_g)"

text \<open>The weight each token's gradient row ends up multiplied by.\<close>

definition effective_token_weights :: "mat \<Rightarrow> tensor3 \<Rightarrow> mat" where
  "effective_token_weights per_token_weights g =
     map (map (\<lambda>w. w * (norm3 g / norm3 (token_mul g per_token_weights)))) per_token_weights"

section \<open>Losses over sequences\<close>

subsection \<open>Reductions\<close>

definition logsumexp :: "vec \<Rightarrow> real" where
  "logsumexp xs = ln (sum_list (map exp xs))"

text \<open>\<^verbatim>\<open>tf.reduce_mean\<close> of a loss: the mean of no entries is \<open>0 / 0\<close>.\<close>

fun reduce_mean :: "tensor \<Rightarrow> tensor" where
  "reduce_mean (Scalar x) = Scalar x"
| "reduce_mean (Vector v) = (if v = [] then NotANumber else Scalar (sum_list v / real (length v)))"
| "reduce_mean (Matrix m) =
     (if size2 m = 0 then NotANumber else Scalar (reduce_sum2 m / real (size2 m)))"
| "reduce_mean NotANumber = NotANumber"

text \<open>Adding a scalar to a loss and multiplying a loss by a scalar, with broadcasting.\<close>

fun add_scalar :: "tensor \<Rightarrow> tensor \<Rightarrow> tensor" where
  "add_scalar (Scalar x) (Scalar y) = Scalar (x + y)"
| "add_scalar (Vector v) (Scalar y) = Vector (map (\<lambda>x. x + y) v)"
| "add_scalar (Matrix m) (Scalar y) = Matrix (map (map (\<lambda>x. x + y)) m)"
| "add_scalar t u = NotANumber"

fun times_scalar :: "real \<Rightarrow> tensor \<Rightarrow> tensor" where
  "times_scalar c (Scalar x) = Scalar (c * x)"
| "times_scalar c (Vector v) = Vector (map (\<lambda>x. c * x) v)"
| "times_scalar c (Matrix m) = Matrix (map (map (\<lambda>x. c * x)) m)"
| "times_scalar c NotANumber = NotANumber"

text \<open>The product of two scalar tensors; a factor that is not a number makes the product one.\<close>

fun scalar_product :: "tensor \<Rightarrow> tensor \<Rightarrow> tensor" where
  "scalar_product (Scalar x) (Scalar y) = Scalar (x * y)"
| "scalar_product t u = NotANumber"

text \<open>\<^verbatim>\<open>loss -= v\<close> for a loss that starts as the Python float \<open>0.0\<close>.\<close>

fun minus_vector :: "tensor \<Rightarrow> vec \<Rightarrow> tensor" where
  "minus_vector (Scalar x) v = Vector (map (\<lambda>y. x - y) v)"
| "minus_vector (Vector u) v = Vector (map2 (-) u v)"
| "minus_vector t v = NotANumber"

subsection \<open>Linear-chain CRF log-likelihood\<close>

text \<open>
  \<^verbatim>\<open>tensorflow_addons.text.crf.crf_log_likelihood(inputs, tag_indices, sequence_lengths,
  transition_params)\<close>, one batch row at a time. The score of the tagged path adds the
  unary potentials of the positions below the length and the transition potentials
  between them (the masked sums of \<^verbatim>\<open>crf_unary_score\<close> and \<^verbatim>\<open>crf_binary_score\<close>). The
  log-normaliser is the forward algorithm of \<^verbatim>\<open>crf_forward\<close>: the first position's
  potentials are the initial state, every further position applies \<^verbatim>\<open>_scan_fn\<close>, and the
  state at index \<open>max 0 (length - 1)\<close> is reduced by \<^verbatim>\<open>reduce_logsumexp\<close>; it is masked to
  zero for a length of zero.
\<close>

definition crf_unary_score :: "nat list \<Rightarrow> nat \<Rightarrow> mat \<Rightarrow> real" where
  "crf_unary_score tag_indices len inputs = (\<Sum>t\<leftarrow>[0..<len]. inputs ! t ! (tag_indices ! t))"

definition crf_binary_score :: "nat list \<Rightarrow> nat \<Rightarrow> mat \<Rightarrow> real" where
  "crf_binary_score tag_indices len transition_params =
     (\<Sum>t\<leftarrow>[1..<len]. transition_params ! (tag_indices ! (t - 1)) ! (tag_indices ! t))"

definition crf_sequence_score :: "mat \<Rightarrow> nat list \<Rightarrow> nat \<Rightarrow> mat \<Rightarrow> real" where
  "crf_sequence_score inputs tag_indices len transition_params =
     crf_unary_score tag_indices len inputs + crf_binary_score tag_indices len transition_params"

definition scan_fn :: "mat \<Rightarrow> vec \<Rightarrow> vec \<Rightarrow> vec" where
  "scan_fn transition_params state inputs =
     map (\<lambda>j. inputs ! j + logsumexp (map2 (\<lambda>s row. s + row ! j) state transition_params))
       [0..<length inputs]"

fun crf_forward :: "mat \<Rightarrow> mat \<Rightarrow> nat \<Rightarrow> vec" where
  "crf_forward transition_params inputs 0 = inputs ! 0"
| "crf_forward transition_params inputs (Suc k) =
     scan_fn transition_params (crf_forward transition_params inputs k) (inputs ! Suc k)"

definition crf_log_norm :: "mat \<Rightarrow> nat \<Rightarrow> mat \<Rightarrow> real" where
  "crf_log_norm inputs len transition_params =
     (if len \<le> 0 then 0 else logsumexp (crf_forward transition_params inputs (max 0 (len - 1))))"

definition crf_row_log_likelihood :: "mat \<Rightarrow> mat \<Rightarrow> nat list \<Rightarrow> nat \<Rightarrow> real" where
  "crf_row_log_likelihood transition_params inputs tag_indices len =
     crf_sequence_score inputs tag_indices len transition_params
       - crf_log_norm inputs len transition_params"

text \<open>
  The gathers of the library read every position of a row, padding included, and the
  state at the last index: a tag outside the transition matrix, rows of different
  lengths, an empty sequence axis or a length beyond the sequence axis is an invalid
  argument of the graph.
\<close>

definition crf_row_ok :: "nat \<Rightarrow> mat \<Rightarrow> nat list \<Rightarrow> nat \<Rightarrow> bool" where
  "crf_row_ok num_tags inputs tag_indices len =
     (inputs \<noteq> [] \<and> rectangular num_tags inputs \<and> length tag_indices = length inputs
      \<and> list_all (\<lambda>tag. tag < num_tags) tag_indices \<and> len \<le> length inputs)"

definition crf_log_likelihood :: "tensor3 \<Rightarrow> nat list list \<Rightarrow> nat list \<Rightarrow> mat \<Rightarrow> error + vec" where
  "crf_log_likelihood inputs tag_indices sequence_lengths transition_params =
     (let num_tags = length transition_params in
      if 0 < num_tags \<and> rectangular num_tags transition_params
         \<and> length tag_indices = length inputs \<and> length sequence_lengths = length inputs
         \<and> list_all (\<lambda>(x, tags, len). crf_row_ok num_tags x tags len)
              (zip inputs (zip tag_indices sequence_lengths))
      then Inr (map (\<lambda>(x, tags, len). crf_row_log_likelihood transition_params x tags len)
                  (zip inputs (zip tag_indices sequence_lengths)))
      else Inl InvalidArgumentError)"

subsection \<open>Length-normalised cross-entropy\<close>

text \<open>
  \<^verbatim>\<open>tf.sequence_mask(lengths, maxlen) / expand_dims(lengths, -1)\<close> and
  \<^verbatim>\<open>tf.compat.v1.losses.sparse_softmax_cross_entropy(labels, logits, weights)\<close> with its
  default reduction: the weighted token losses are summed and divided, by
  \<^verbatim>\<open>div_no_nan\<close>, by the number of weights that are not zero. A length of zero makes the
  weights of its row \<open>0 / 0\<close>, and the loss with them.
\<close>

definition sequence_mask :: "nat \<Rightarrow> nat \<Rightarrow> vec" where
  "sequence_mask len maxlen = map (\<lambda>t. if t < len then 1 else 0) [0..<maxlen]"

definition length_weights :: "nat \<Rightarrow> nat \<Rightarrow> vec" where
  "length_weights len maxlen = map (\<lambda>m. m / real len) (sequence_mask len maxlen)"

definition token_cross_entropy :: "vec \<Rightarrow> nat \<Rightarrow> real" where
  "token_cross_entropy logits label = logsumexp logits - logits ! label"

definition row_weighted_loss :: "mat \<Rightarrow> nat list \<Rightarrow> vec \<Rightarrow> real" where
  "row_weighted_loss logits labels weights =
     sum_list (map2 (*) (map2 token_cross_entropy logits labels) weights)"

definition num_present :: "mat \<Rightarrow> nat" where
  "num_present weights = sum_list (map (\<lambda>row. length (filter (\<lambda>w. w \<noteq> 0) row)) weights)"

definition div_no_nan :: "real \<Rightarrow> real \<Rightarrow> real" where
  "div_no_nan x y = (if y = 0 then 0 else x / y)"

definition labels_ok :: "nat \<Rightarrow> tensor3 \<Rightarrow> nat list list \<Rightarrow> bool" where
  "labels_ok n_classes logits labels =
     (length labels = length logits
      \<and> list_all (\<lambda>(x, y). length y = length x \<and> rectangular n_classes x
                     \<and> list_all (\<lambda>label. label < n_classes) y) (zip logits labels))"

definition maxlen_of :: "nat list list \<Rightarrow> nat" where
  "maxlen_of targets = (case targets of [] \<Rightarrow> 0 | row # _ \<Rightarrow> length row)"

definition weighted_cross_entropy :: "nat \<Rightarrow> nat list list \<Rightarrow> tensor3 \<Rightarrow> nat list \<Rightarrow> error + tensor" where
  "weighted_cross_entropy n_classes targets logits lengths =
     (let maxlen = maxlen_of targets;
          weights = map (\<lambda>len. length_weights len maxlen) lengths in
      if \<not> (labels_ok n_classes logits targets \<and> length lengths = length logits
             \<and> rectangular maxlen targets)
      then Inl InvalidArgumentError
      else if 0 < maxlen \<and> 0 \<in> set lengths then Inr NotANumber
      else Inr (Scalar (div_no_nan
             (sum_list (map (\<lambda>(x, y, w). row_weighted_loss x y w) (zip logits (zip targets weights))))
             (real (num_present weights)))))"

section \<open>Configuration and collaborators\<close>

text \<open>
  The options of the configuration object that the modelled functions read.
  \<open>is_bidirectional\<close> stands for \<^verbatim>\<open>config.base_model.is_bidirectional\<close>; an unset
  \<^verbatim>\<open>tsa_method\<close> is \<open>None\<close>.
\<close>

record config =
  n_embed :: nat
  clf_p_drop :: real
  regression_loss :: string
  is_bidirectional :: bool
  low_memory_mode :: bool
  tsa_method :: "string option"
  ssl_loss_coef :: real
  pseudo_thresh :: real

text \<open>Python truthiness of \<^verbatim>\<open>config.tsa_method\<close>: \<^verbatim>\<open>None\<close> and the empty string are false.\<close>

definition tsa_configured :: "config \<Rightarrow> bool" where
  "tsa_configured config = (case tsa_method config of None \<Rightarrow> False | Some m \<Rightarrow> m \<noteq> [])"

text \<open>
  The functions of the repository that the target blocks import from modules outside the
  verified file (\<^verbatim>\<open>dropout\<close>, \<^verbatim>\<open>attn\<close> and \<^verbatim>\<open>norm\<close>, \<^verbatim>\<open>tsa_filter\<close>, \<^verbatim>\<open>warmup_constant\<close>,
  \<^verbatim>\<open>sequence_decode\<close>), the featurizer callback of the caller, once with the live weights
  and once under the getter of \<^verbatim>\<open>build_ema_getter\<close>, the training step counter and the
  random draws of one call are parameters of the model: every theorem holds for all of
  them, or names what it needs of them. \<open>seq_label_attn\<close> is the residual attention block
  \<^verbatim>\<open>norm(attn_fn(hidden) + hidden)\<close>; \<open>adv_loss\<close> is the mean Kullback-Leibler divergence
  that virtual adversarial training reaches by differentiating through the graph.
\<close>

record collaborators =
  dropout :: "mat \<Rightarrow> real \<Rightarrow> bool \<Rightarrow> mat"
  seq_label_attn :: "tensor3 \<Rightarrow> tensor3"
  featurizer_fn :: "tensor3 \<Rightarrow> tensor3"
  ema_featurizer_fn :: "tensor3 \<Rightarrow> tensor3"
  tsa_filter :: "string option \<Rightarrow> tensor3 \<Rightarrow> nat list list \<Rightarrow> nat list \<Rightarrow> bool \<Rightarrow> mat \<Rightarrow> nat
                   \<Rightarrow> tensor3 \<times> nat list list \<times> nat list"
  warmup_constant :: "real \<Rightarrow> real \<Rightarrow> real"
  sequence_decode :: "tensor3 \<Rightarrow> mat \<Rightarrow> nat list \<Rightarrow> bool \<Rightarrow> nat list list \<times> tensor3"
  global_step :: nat
  adv_loss :: real
  shuffle_indicies :: "nat list"
  lam_mix :: vec
  lam_ema :: vec

record ('l, 'p) head_output =
  logits :: 'l
  losses :: "tensor option"
  predict_params :: 'p

datatype transitions = Transition mat | Transitions "mat list"

record params =
  transition_matrix :: transitions
  sequence_length :: "nat list"

section \<open>Linear heads\<close>

definition perceptron :: "variables \<Rightarrow> mat \<Rightarrow> nat \<Rightarrow> config \<Rightarrow> error + mat" where
  "perceptron vars x ny config =
     (let nx = n_embed config in
      case get_variable2 vars ''perceptron/w'' nx ny of
        Inl e \<Rightarrow> Inl e
      | Inr w \<Rightarrow>
          (case get_variable1 vars ''perceptron/b'' ny of
             Inl e \<Rightarrow> Inl e
           | Inr b \<Rightarrow>
               if rectangular nx x then Inr (map (affine_row w b) x)
               else Inl (ValueError ''matmul'')))"

text \<open>\<^verbatim>\<open>str.upper\<close> on the characters that can make a difference to \<^verbatim>\<open>"L1"\<close> and \<^verbatim>\<open>"L2"\<close>.\<close>

definition upper_char :: "char \<Rightarrow> char" where
  "upper_char c =
     (if (97::nat) \<le> of_char c \<and> of_char c \<le> (122::nat) then char_of (of_char c - (32::nat)) else c)"

definition upper :: "string \<Rightarrow> string" where
  "upper s = map upper_char s"

text \<open>
  \<^verbatim>\<open>outputs - targets\<close> for targets of the shape of the outputs. For targets of another
  shape TensorFlow either broadcasts or raises \<^verbatim>\<open>ValueError\<close>; the model covers neither and
  answers \<^verbatim>\<open>ValueError\<close>, and the theorems on the regressor take targets of the shape of
  the outputs.
\<close>

definition same_shape2 :: "mat \<Rightarrow> mat \<Rightarrow> bool" where
  "same_shape2 a b = (map length a = map length b)"

definition subtract2 :: "mat \<Rightarrow> mat \<Rightarrow> mat" where
  "subtract2 a b = map2 (map2 (-)) a b"

text \<open>\<^verbatim>\<open>tf.nn.l2_loss(t)\<close> is \<^verbatim>\<open>sum(t ** 2) / 2\<close>.\<close>

definition l2_loss :: "mat \<Rightarrow> real" where
  "l2_loss t = reduce_sum2 (map (map (\<lambda>x. x * x)) t) / 2"

definition regressor ::
  "collaborators \<Rightarrow> variables \<Rightarrow> mat \<Rightarrow> mat option \<Rightarrow> nat \<Rightarrow> config \<Rightarrow> bool
     \<Rightarrow> error + (mat, unit) head_output" where
  "regressor env vars hidden targets n_targets config train =
     (let hidden = dropout env hidden (clf_p_drop config) train in
      case perceptron vars hidden n_targets config of
        Inl e \<Rightarrow> Inl e
      | Inr outputs \<Rightarrow>
          (case targets of
             None \<Rightarrow> Inr \<lparr>logits = outputs, losses = None, predict_params = ()\<rparr>
           | Some targets \<Rightarrow>
               if upper (regression_loss config) = ''L2''
               then (if same_shape2 outputs targets
                     then Inr \<lparr>logits = outputs,
                               losses = Some (Scalar (l2_loss (subtract2 outputs targets))),
                               predict_params = ()\<rparr>
                     else Inl (ValueError ''sub''))
               else if upper (regression_loss config) = ''L1''
               then (if same_shape2 outputs targets
                     then Inr \<lparr>logits = outputs,
                               losses = Some (Matrix (map (map abs) (subtract2 outputs targets))),
                               predict_params = ()\<rparr>
                     else Inl (ValueError ''sub''))
               else Inl (FinetuneError
                      (''regression_loss needs to be either L1 or L2, instead it is ''
                         @ regression_loss config))))"

text \<open>The mean absolute error of the specification, for comparison with the L1 branch.\<close>

definition spec_mean_absolute_error :: "mat \<Rightarrow> mat \<Rightarrow> tensor" where
  "spec_mean_absolute_error outputs targets = reduce_mean (Matrix (map (map abs) (subtract2 outputs targets)))"

section \<open>Sequence labeler\<close>

text \<open>
  The Python variable \<^verbatim>\<open>logits\<close> is written \<open>logits_t\<close> below, since \<open>logits\<close> names the
  field of the returned dictionary.
\<close>

text \<open>
  \<^verbatim>\<open>tf.compat.v1.layers.dense(n, n_targets)\<close> and the Keras layer \<^verbatim>\<open>Dense(n_targets)\<close>:
  a kernel of shape \<open>[n_embed, units]\<close> and a bias of shape \<open>[units]\<close> applied to every
  token. A second call of the same layer reads the same two variables.
\<close>

definition dense :: "variables \<Rightarrow> nat \<Rightarrow> nat \<Rightarrow> tensor3 \<Rightarrow> error + tensor3" where
  "dense vars nx units x =
     (case get_variable2 vars ''dense/kernel'' nx units of
        Inl e \<Rightarrow> Inl e
      | Inr w \<Rightarrow>
          (case get_variable1 vars ''dense/bias'' units of
             Inl e \<Rightarrow> Inl e
           | Inr bias \<Rightarrow>
               if list_all (rectangular nx) x then Inr (map (map (affine_row w bias)) x)
               else Inl (ValueError ''dense'')))"

text \<open>\<^verbatim>\<open>recompute_grad\<close> changes how gradients are obtained, not the forward value.\<close>

definition recompute_grad :: "('a \<Rightarrow> 'b) \<Rightarrow> 'a \<Rightarrow> 'b" where
  "recompute_grad f = f"

text \<open>
  \<^verbatim>\<open>seq_lab_internal\<close>. The final \<^verbatim>\<open>tf.reshape\<close> to \<open>[batch, seq, n_targets]\<close> of the hidden
  state is the identity on a tensor of that shape and an invalid argument otherwise.
\<close>

definition seq_lab_internal :: "collaborators \<Rightarrow> variables \<Rightarrow> config \<Rightarrow> nat \<Rightarrow> tensor3 \<Rightarrow> error + tensor3" where
  "seq_lab_internal env vars config n_targets hidden =
     (let n = (if is_bidirectional config then hidden else seq_label_attn env hidden) in
      case dense vars (n_embed config) n_targets n of
        Inl e \<Rightarrow> Inl e
      | Inr flat_logits \<Rightarrow>
          if map length flat_logits = map length hidden then Inr flat_logits
          else Inl InvalidArgumentError)"

text \<open>\<^verbatim>\<open>tf.shape(hidden)[1] * tf.ones(tf.shape(hidden)[0])\<close>.\<close>

definition default_lengths :: "tensor3 \<Rightarrow> nat list" where
  "default_lengths hidden = map length hidden"

definition one_hot :: "nat \<Rightarrow> nat \<Rightarrow> vec" where
  "one_hot depth y = map (\<lambda>c. if c = y then 1 else 0) [0..<depth]"

text \<open>
  \<^verbatim>\<open>reduce_sum(reshape(class_weights, [1, 1, -1]) * one_hot(targets, n_targets), -1)\<close>; a
  vector of one weight broadcasts over the classes.
\<close>

definition per_token_weights :: "vec \<Rightarrow> nat \<Rightarrow> nat list list \<Rightarrow> mat" where
  "per_token_weights class_weights n_targets targets =
     map (map (\<lambda>y. sum_list (map2 (*)
            (if length class_weights = 1 then replicate n_targets (hd class_weights) else class_weights)
            (one_hot n_targets y)))) targets"

definition reweight_logits :: "vec option \<Rightarrow> bool \<Rightarrow> nat list list option \<Rightarrow> nat \<Rightarrow> tensor3 \<Rightarrow> error + tensor3" where
  "reweight_logits class_weights train targets n_targets logits_t =
     (case class_weights of
        None \<Rightarrow> Inr logits_t
      | Some cw \<Rightarrow>
          if train then
            (case targets of
               None \<Rightarrow> Inl (ValueError ''one_hot'')
             | Some t \<Rightarrow>
                 if length cw = n_targets \<or> length cw = 1
                 then Inr (class_reweighting_forward (per_token_weights cw n_targets t) logits_t)
                 else Inl (ValueError ''class_weights''))
          else Inr logits_t)"

text \<open>
  The loss block shared by the labeler and the semi-supervised engines: the negated CRF
  log-likelihood, one entry per row, or the length-normalised cross-entropy, one number.
\<close>

definition labeler_loss :: "nat \<Rightarrow> bool \<Rightarrow> nat list list \<Rightarrow> tensor3 \<Rightarrow> nat list \<Rightarrow> mat \<Rightarrow> error + tensor" where
  "labeler_loss n_targets use_crf targets logits_t lengths transition_params =
     (if use_crf then
        (case crf_log_likelihood logits_t targets lengths transition_params of
           Inl e \<Rightarrow> Inl e
         | Inr log_likelihood \<Rightarrow> Inr (Vector (map uminus log_likelihood)))
      else weighted_cross_entropy n_targets targets logits_t lengths)"

datatype targets = Labels "nat list list" | MultiLabels "nat list list list"

datatype logits_out = Logits tensor3 | Stacked "tensor3 list"

subsection \<open>Multilabel mode\<close>

fun str_nat :: "nat \<Rightarrow> string" where
  "str_nat n = (if n < 10 then [char_of (48 + n)] else str_nat (n div 10) @ [char_of (48 + n mod 10)])"

declare str_nat.simps [simp del]

definition unstack_logits :: "tensor3 \<Rightarrow> nat \<Rightarrow> mat" where
  "unstack_logits logits_t i = map (map (\<lambda>tok. tok ! i)) logits_t"

definition unstack_targets :: "nat list list list \<Rightarrow> nat \<Rightarrow> nat list list" where
  "unstack_targets targets i = map (map (\<lambda>tok. tok ! i)) targets"

definition stack2 :: "mat \<Rightarrow> mat \<Rightarrow> tensor3" where
  "stack2 a b = map2 (map2 (\<lambda>x y. [x, y])) a b"

definition chain_class_weight :: "vec \<Rightarrow> nat \<Rightarrow> nat \<Rightarrow> nat list list \<Rightarrow> mat" where
  "chain_class_weight class_weights pad_id i targets_i =
     map (map (\<lambda>y. class_weights ! i * real y + class_weights ! pad_id * (1 - real y))) targets_i"

text \<open>The three Python variables that the loop over the classes updates.\<close>

record chains =
  chain_transitions :: "mat list"
  chain_logits :: "tensor3 list"
  chain_loss :: tensor

text \<open>
  One pass of \<^verbatim>\<open>for i in range(n_targets)\<close>. With class weights the chain's logits are
  \<^verbatim>\<open>logits[-1]\<close> behind the custom gradient, without them \<^verbatim>\<open>logits[i]\<close>.
\<close>

definition multilabel_step ::
  "variables \<Rightarrow> nat list list list option \<Rightarrow> nat \<Rightarrow> nat \<Rightarrow> nat list \<Rightarrow> bool \<Rightarrow> vec option \<Rightarrow> tensor3
     \<Rightarrow> nat \<Rightarrow> chains \<Rightarrow> error + chains" where
  "multilabel_step vars targets n_targets pad_id lengths use_crf class_weights logits_all i st =
     (case get_variable2 vars (''Transition_matrix_'' @ str_nat i) 2 2 of
        Inl e \<Rightarrow> Inl e
      | Inr tm \<Rightarrow>
          if \<not> pad_id < n_targets then Inl IndexError
          else
            let transition_params = chain_transitions st @ [tm];
                logits_t = chain_logits st
                  @ [stack2 (unstack_logits logits_all pad_id) (unstack_logits logits_all i)] in
            (case targets of
               None \<Rightarrow>
                 Inr \<lparr>chain_transitions = transition_params, chain_logits = logits_t,
                      chain_loss = chain_loss st\<rparr>
             | Some t \<Rightarrow>
                 if i \<noteq> pad_id then
                   (case (case class_weights of
                            Some cw \<Rightarrow>
                              if i < length cw \<and> pad_id < length cw
                              then Inr (class_reweighting_forward
                                     (chain_class_weight cw pad_id i (unstack_targets t i)) (last logits_t))
                              else Inl IndexError
                          | None \<Rightarrow> if i < length logits_t then Inr (logits_t ! i) else Inl IndexError) of
                      Inl e \<Rightarrow> Inl e
                    | Inr logits_i \<Rightarrow>
                        if use_crf then
                          (case crf_log_likelihood logits_i (unstack_targets t i) lengths
                                  (last transition_params) of
                             Inl e \<Rightarrow> Inl e
                           | Inr log_likelihood \<Rightarrow>
                               Inr \<lparr>chain_transitions = transition_params, chain_logits = logits_t,
                                    chain_loss = minus_vector (chain_loss st) log_likelihood\<rparr>)
                        else
                          (case weighted_cross_entropy 2 (unstack_targets t i) logits_i lengths of
                             Inl e \<Rightarrow> Inl e
                           | Inr ce \<Rightarrow>
                               Inr \<lparr>chain_transitions = transition_params, chain_logits = logits_t,
                                    chain_loss = add_scalar (chain_loss st) ce\<rparr>))
                 else
                   Inr \<lparr>chain_transitions = transition_params, chain_logits = logits_t,
                        chain_loss = chain_loss st\<rparr>))"

fun multilabel_loop :: "(nat \<Rightarrow> chains \<Rightarrow> error + chains) \<Rightarrow> nat list \<Rightarrow> chains \<Rightarrow> error + chains" where
  "multilabel_loop step [] st = Inr st"
| "multilabel_loop step (i # rest) st =
     (case step i st of Inl e \<Rightarrow> Inl e | Inr st' \<Rightarrow> multilabel_loop step rest st')"

text \<open>
  \<^verbatim>\<open>tf.unstack(targets, n_targets, axis=-1)\<close> needs targets of shape
  \<open>[batch, seq, n_targets]\<close>.
\<close>

definition multilabel_targets :: "targets option \<Rightarrow> nat \<Rightarrow> error + nat list list list option" where
  "multilabel_targets targets n_targets =
     (case targets of
        None \<Rightarrow> Inr None
      | Some (Labels t) \<Rightarrow> Inl (ValueError ''unstack'')
      | Some (MultiLabels t) \<Rightarrow>
          if list_all (rectangular n_targets) t then Inr (Some t) else Inl (ValueError ''unstack''))"

definition single_targets :: "targets option \<Rightarrow> error + nat list list option" where
  "single_targets targets =
     (case targets of
        None \<Rightarrow> Inr None
      | Some (Labels t) \<Rightarrow> Inr (Some t)
      | Some (MultiLabels t) \<Rightarrow> Inl (ValueError ''targets''))"

definition sequence_labeler ::
  "collaborators \<Rightarrow> variables \<Rightarrow> tensor3 \<Rightarrow> targets option \<Rightarrow> nat \<Rightarrow> config \<Rightarrow> nat \<Rightarrow> bool \<Rightarrow> bool
     \<Rightarrow> nat list option \<Rightarrow> bool \<Rightarrow> vec option \<Rightarrow> error + (logits_out, params) head_output" where
  "sequence_labeler env vars hidden targets n_targets config pad_id multilabel train lengths use_crf
       class_weights =
     (case (if low_memory_mode config \<and> train
            then recompute_grad (seq_lab_internal env vars config n_targets)
            else seq_lab_internal env vars config n_targets) hidden of
        Inl e \<Rightarrow> Inl e
      | Inr logits_t \<Rightarrow>
          let lengths = (case lengths of None \<Rightarrow> default_lengths hidden | Some l \<Rightarrow> l) in
          if multilabel then
            (case multilabel_targets targets n_targets of
               Inl e \<Rightarrow> Inl e
             | Inr t \<Rightarrow>
                 (case multilabel_loop
                         (multilabel_step vars t n_targets pad_id lengths use_crf class_weights logits_t)
                         [0..<n_targets]
                         \<lparr>chain_transitions = [], chain_logits = [], chain_loss = Scalar 0\<rparr> of
                    Inl e \<Rightarrow> Inl e
                  | Inr st \<Rightarrow>
                      Inr \<lparr>logits = Stacked (chain_logits st), losses = Some (chain_loss st),
                           predict_params = \<lparr>transition_matrix = Transitions (chain_transitions st),
                                              sequence_length = lengths\<rparr>\<rparr>))
          else
            (case single_targets targets of
               Inl e \<Rightarrow> Inl e
             | Inr t \<Rightarrow>
                 (case reweight_logits class_weights train t n_targets logits_t of
                    Inl e \<Rightarrow> Inl e
                  | Inr logits_t \<Rightarrow>
                      (case get_variable2 vars ''Transition_matrix'' n_targets n_targets of
                         Inl e \<Rightarrow> Inl e
                       | Inr transition_params \<Rightarrow>
                           (case t of
                              None \<Rightarrow>
                                Inr \<lparr>logits = Logits logits_t, losses = Some (Scalar 0),
                                     predict_params = \<lparr>transition_matrix = Transition transition_params,
                                                        sequence_length = lengths\<rparr>\<rparr>
                            | Some targets \<Rightarrow>
                                (case labeler_loss n_targets use_crf targets logits_t lengths
                                        transition_params of
                                   Inl e \<Rightarrow> Inl e
                                 | Inr loss \<Rightarrow>
                                     Inr \<lparr>logits = Logits logits_t, losses = Some loss,
                                          predict_params = \<lparr>transition_matrix = Transition transition_params,
                                                             sequence_length = lengths\<rparr>\<rparr>))))))"



section \<open>Semi-supervised engines\<close>

text \<open>
  \<^verbatim>\<open>tf.reduce_mean(tf.keras.losses.MSE(a, b))\<close>: the mean over the class axis of the squared
  differences, then the mean over all tokens.
\<close>

definition mse_token :: "vec \<Rightarrow> vec \<Rightarrow> real" where
  "mse_token p q = sum_list (map2 (\<lambda>x y. (x - y) * (x - y)) p q) / real (length p)"

definition consistency_loss :: "tensor3 \<Rightarrow> tensor3 \<Rightarrow> error + tensor" where
  "consistency_loss a b =
     (if map (map length) a \<noteq> map (map length) b then Inl InvalidArgumentError
      else if list_ex (list_ex (\<lambda>tok. tok = [])) a then Inr NotANumber
      else Inr (reduce_mean (Matrix (map2 (map2 mse_token) a b))))"

text \<open>
  The coefficient of the unsupervised term as \<^verbatim>\<open>ict\<close> and \<^verbatim>\<open>mean_teacher\<close> compute it:
  \<^verbatim>\<open>tf.maximum(0.0, config.ssl_loss_coef * warmup_constant(global_step / total_steps,
  warmup=0.25))\<close>. With \<^verbatim>\<open>total_steps = 0\<close> the float division is by zero (\<open>0 / 0\<close> at
  step 0), and the coefficient is not a number.
\<close>

definition ssl_loss_coefficient :: "collaborators \<Rightarrow> config \<Rightarrow> nat \<Rightarrow> tensor" where
  "ssl_loss_coefficient env config total_steps =
     (if total_steps = 0 then NotANumber
      else
        let training_fraction = real (global_step env) / real total_steps;
            coef_fraction = warmup_constant env training_fraction (1 / 4)
        in Scalar (max 0 (ssl_loss_coef config * coef_fraction)))"

text \<open>\<^verbatim>\<open>tf.cond(tf.equal(tf.shape(targets)[0], 0), lambda: 0.0, lambda: loss)\<close>.\<close>

definition zero_if_no_targets :: "nat list list \<Rightarrow> tensor \<Rightarrow> tensor" where
  "zero_if_no_targets targets loss = (if length targets = 0 then Scalar 0 else loss)"

text \<open>
  The supervised block that \<^verbatim>\<open>vat\<close>, \<^verbatim>\<open>ict\<close> and \<^verbatim>\<open>mean_teacher\<close> each spell out: the
  TSA filter when a method is configured, the loss of the labeler under
  \<^verbatim>\<open>with tf.device("CPU:0" if train else device)\<close>, the \<^verbatim>\<open>tf.cond\<close> that replaces the loss
  by \<open>0.0\<close> when no target row is left, and \<^verbatim>\<open>tf.reduce_mean\<close>. The three copies differ in
  one point: \<^verbatim>\<open>ict\<close> binds \<^verbatim>\<open>device = logits.device\<close> beforehand, while \<^verbatim>\<open>vat\<close> and
  \<^verbatim>\<open>mean_teacher\<close> never bind the name and the module does not define it. Python
  evaluates \<^verbatim>\<open>device\<close> only when the CRF is used and \<^verbatim>\<open>train\<close> is false, and raises
  \<^verbatim>\<open>NameError\<close> then. The block returns the logits and lengths that the function goes on
  to return, and the reduced loss.
\<close>

definition supervised_loss ::
  "collaborators \<Rightarrow> config \<Rightarrow> bool \<Rightarrow> nat \<Rightarrow> bool \<Rightarrow> bool \<Rightarrow> nat \<Rightarrow> mat \<Rightarrow> tensor3 \<Rightarrow> nat list list
     \<Rightarrow> nat list \<Rightarrow> error + tensor3 \<times> nat list \<times> tensor" where
  "supervised_loss env config device_bound n_targets use_crf train total_num_steps transition_params
       logits_t targets lengths =
     (let (logits_t, targets, lengths) =
            (if tsa_configured config
             then tsa_filter env (tsa_method config) logits_t targets lengths use_crf
                    transition_params total_num_steps
             else (logits_t, targets, lengths))
      in
      (case (if use_crf \<and> \<not> train \<and> \<not> device_bound then Inl (NameError ''device'')
             else labeler_loss n_targets use_crf targets logits_t lengths transition_params) of
         Inl e \<Rightarrow> Inl e
       | Inr loss \<Rightarrow>
           let loss = (if tsa_configured config then zero_if_no_targets targets loss else loss)
           in Inr (logits_t, lengths, reduce_mean loss)))"

text \<open>
  \<^verbatim>\<open>vat\<close>: \<^verbatim>\<open>loss += config.ssl_loss_coef * adv_loss\<close>.
\<close>

definition vat ::
  "collaborators \<Rightarrow> variables \<Rightarrow> tensor3 \<Rightarrow> nat list list option \<Rightarrow> nat \<Rightarrow> config \<Rightarrow> bool
     \<Rightarrow> nat list option \<Rightarrow> bool \<Rightarrow> vec option \<Rightarrow> nat \<Rightarrow> error + (tensor3, params) head_output" where
  "vat env vars hidden targets n_targets config train lengths use_crf class_weights total_num_steps =
     (case dense vars (n_embed config) n_targets hidden of
        Inl e \<Rightarrow> Inl e
      | Inr all_logits \<Rightarrow>
          let all_lengths = (case lengths of None \<Rightarrow> default_lengths hidden | Some l \<Rightarrow> l);
              logits_t = (case targets of None \<Rightarrow> all_logits | Some t \<Rightarrow> take (length t) all_logits);
              lengths = (case targets of None \<Rightarrow> all_lengths | Some t \<Rightarrow> take (length t) all_lengths)
          in
          (case reweight_logits class_weights train targets n_targets logits_t of
             Inl e \<Rightarrow> Inl e
           | Inr logits_t \<Rightarrow>
               (case get_variable2 vars ''Transition_matrix'' n_targets n_targets of
                  Inl e \<Rightarrow> Inl e
                | Inr transition_params \<Rightarrow>
                    (case targets of
                       None \<Rightarrow>
                         Inr \<lparr>logits = logits_t, losses = Some (Scalar 0),
                              predict_params = \<lparr>transition_matrix = Transition transition_params,
                                                 sequence_length = lengths\<rparr>\<rparr>
                     | Some targets \<Rightarrow>
                         (case supervised_loss env config False n_targets use_crf train total_num_steps
                                 transition_params logits_t targets lengths of
                            Inl e \<Rightarrow> Inl e
                          | Inr (logits_t, lengths, loss) \<Rightarrow>
                              Inr \<lparr>logits = logits_t,
                                   losses = Some (add_scalar loss
                                              (Scalar (ssl_loss_coef config * adv_loss env))),
                                   predict_params = \<lparr>transition_matrix = Transition transition_params,
                                                      sequence_length = lengths\<rparr>\<rparr>)))))"

text \<open>
  \<^verbatim>\<open>mean_teacher\<close>. The teacher's logits come from the featurizer under the EMA getter
  and the same dense layer; the consistency loss compares them with the logits of the
  whole batch. The function computes \<^verbatim>\<open>loss_coef\<close> and then adds
  \<^verbatim>\<open>config.ssl_loss_coef * u_loss\<close>.
\<close>

definition mean_teacher_u_loss ::
  "collaborators \<Rightarrow> variables \<Rightarrow> config \<Rightarrow> nat \<Rightarrow> tensor3 \<Rightarrow> tensor3 \<Rightarrow> error + tensor" where
  "mean_teacher_u_loss env vars config n_targets all_logits embedding_out =
     (case dense vars (n_embed config) n_targets (ema_featurizer_fn env embedding_out) of
        Inl e \<Rightarrow> Inl e
      | Inr ema_logits \<Rightarrow> consistency_loss all_logits ema_logits)"

definition mean_teacher ::
  "collaborators \<Rightarrow> variables \<Rightarrow> tensor3 \<Rightarrow> nat list list option \<Rightarrow> nat \<Rightarrow> config \<Rightarrow> bool
     \<Rightarrow> nat list option \<Rightarrow> bool \<Rightarrow> tensor3 \<Rightarrow> vec option \<Rightarrow> nat
     \<Rightarrow> error + (tensor3, params) head_output" where
  "mean_teacher env vars hidden targets n_targets config train lengths use_crf embedding_out
       class_weights total_num_steps =
     (case dense vars (n_embed config) n_targets hidden of
        Inl e \<Rightarrow> Inl e
      | Inr all_logits \<Rightarrow>
          let all_lengths = (case lengths of None \<Rightarrow> default_lengths hidden | Some l \<Rightarrow> l);
              logits_t = (case targets of None \<Rightarrow> all_logits | Some t \<Rightarrow> take (length t) all_logits);
              lengths = (case targets of None \<Rightarrow> all_lengths | Some t \<Rightarrow> take (length t) all_lengths)
          in
          (case reweight_logits class_weights train targets n_targets logits_t of
             Inl e \<Rightarrow> Inl e
           | Inr logits_t \<Rightarrow>
               (case get_variable2 vars ''Transition_matrix'' n_targets n_targets of
                  Inl e \<Rightarrow> Inl e
                | Inr transition_params \<Rightarrow>
                    (case targets of
                       None \<Rightarrow>
                         Inr \<lparr>logits = logits_t, losses = Some (Scalar 0),
                              predict_params = \<lparr>transition_matrix = Transition transition_params,
                                                 sequence_length = lengths\<rparr>\<rparr>
                     | Some targets \<Rightarrow>
                         (case mean_teacher_u_loss env vars config n_targets all_logits embedding_out of
                            Inl e \<Rightarrow> Inl e
                          | Inr u_loss \<Rightarrow>
                              (case supervised_loss env config False n_targets use_crf train
                                      total_num_steps transition_params logits_t targets lengths of
                                 Inl e \<Rightarrow> Inl e
                               | Inr (logits_t, lengths, loss) \<Rightarrow>
                                   let loss_coef = ssl_loss_coefficient env config total_num_steps in
                                   Inr \<lparr>logits = logits_t,
                                        losses = Some (add_scalar loss
                                                   (times_scalar (ssl_loss_coef config) u_loss)),
                                        predict_params =
                                          \<lparr>transition_matrix = Transition transition_params,
                                           sequence_length = lengths\<rparr>\<rparr>))))))"

text \<open>
  \<^verbatim>\<open>ict\<close>. \<^verbatim>\<open>tf.gather(x, shuffle_indicies, axis=0)\<close> and
  \<^verbatim>\<open>lam * x + (1 - lam) * y\<close> with one coefficient per row; the coefficient is drawn
  once for the inputs (\<open>lam_mix\<close>) and once more for the teacher's logits (\<open>lam_ema\<close>).
\<close>

definition gather :: "'a list \<Rightarrow> nat list \<Rightarrow> 'a list" where
  "gather x indices = map (\<lambda>i. x ! i) indices"

definition interpolate :: "vec \<Rightarrow> tensor3 \<Rightarrow> tensor3 \<Rightarrow> tensor3" where
  "interpolate lam x y =
     map (\<lambda>(l, a, b). map2 (map2 (\<lambda>p q. l * p + (1 - l) * q)) a b) (zip lam (zip x y))"

definition draws_ok :: "collaborators \<Rightarrow> nat \<Rightarrow> bool" where
  "draws_ok env u_batch_size =
     (length (shuffle_indicies env) = u_batch_size
      \<and> list_all (\<lambda>i. i < u_batch_size) (shuffle_indicies env)
      \<and> length (lam_mix env) = u_batch_size \<and> length (lam_ema env) = u_batch_size)"

definition ict_u_loss :: "collaborators \<Rightarrow> variables \<Rightarrow> config \<Rightarrow> nat \<Rightarrow> tensor3 \<Rightarrow> error + tensor" where
  "ict_u_loss env vars config n_targets u_embed =
     (if \<not> draws_ok env (length u_embed) then Inl InvalidArgumentError
      else
        let shuffle_input = gather u_embed (shuffle_indicies env);
            mix_input = interpolate (lam_mix env) u_embed shuffle_input
        in
        (case dense vars (n_embed config) n_targets (featurizer_fn env mix_input) of
           Inl e \<Rightarrow> Inl e
         | Inr mix_logits \<Rightarrow>
             (case dense vars (n_embed config) n_targets (ema_featurizer_fn env u_embed) of
                Inl e \<Rightarrow> Inl e
              | Inr ema_logits \<Rightarrow>
                  let ema_shuffle_logits = gather ema_logits (shuffle_indicies env);
                      ema_mix_logits = interpolate (lam_ema env) ema_logits ema_shuffle_logits
                  in consistency_loss mix_logits ema_mix_logits)))"

definition ict ::
  "collaborators \<Rightarrow> variables \<Rightarrow> tensor3 \<Rightarrow> nat list list option \<Rightarrow> nat \<Rightarrow> config \<Rightarrow> bool
     \<Rightarrow> nat list option \<Rightarrow> bool \<Rightarrow> tensor3 \<Rightarrow> vec option \<Rightarrow> nat
     \<Rightarrow> error + (tensor3, params) head_output" where
  "ict env vars hidden targets n_targets config train lengths use_crf embedding_out
       class_weights total_num_steps =
     (case dense vars (n_embed config) n_targets hidden of
        Inl e \<Rightarrow> Inl e
      | Inr u_logits \<Rightarrow>
          let u_lengths = (case lengths of None \<Rightarrow> default_lengths hidden | Some l \<Rightarrow> l);
              logits_t = (case targets of None \<Rightarrow> u_logits | Some t \<Rightarrow> take (length t) u_logits);
              lengths = (case targets of None \<Rightarrow> u_lengths | Some t \<Rightarrow> take (length t) u_lengths)
          in
          (case reweight_logits class_weights train targets n_targets logits_t of
             Inl e \<Rightarrow> Inl e
           | Inr logits_t \<Rightarrow>
               (case get_variable2 vars ''Transition_matrix'' n_targets n_targets of
                  Inl e \<Rightarrow> Inl e
                | Inr transition_params \<Rightarrow>
                    (case targets of
                       None \<Rightarrow>
                         Inr \<lparr>logits = logits_t, losses = Some (Scalar 0),
                              predict_params = \<lparr>transition_matrix = Transition transition_params,
                                                 sequence_length = lengths\<rparr>\<rparr>
                     | Some targets \<Rightarrow>
                         (case ict_u_loss env vars config n_targets embedding_out of
                            Inl e \<Rightarrow> Inl e
                          | Inr u_loss \<Rightarrow>
                              (case supervised_loss env config True n_targets use_crf train
                                      total_num_steps transition_params logits_t targets lengths of
                                 Inl e \<Rightarrow> Inl e
                               | Inr (logits_t, lengths, loss) \<Rightarrow>
                                   let loss_coef = ssl_loss_coefficient env config total_num_steps in
                                   Inr \<lparr>logits = logits_t,
                                        losses = Some (add_scalar loss (scalar_product loss_coef u_loss)),
                                        predict_params =
                                          \<lparr>transition_matrix = Transition transition_params,
                                           sequence_length = lengths\<rparr>\<rparr>))))))"

section \<open>Pseudo-labelling\<close>

text \<open>
  The probability of a decoded row: with the CRF, \<^verbatim>\<open>tf.exp\<close> of its log-likelihood;
  without, the mean over the positions of the largest class probability that
  \<^verbatim>\<open>sequence_decode\<close> returns. A mean or a maximum of nothing is no number, and compares
  false with every threshold.

  \<^verbatim>\<open>tf.exp\<close> works in float32, whose smallest positive number is \<open>2 ^ -149\<close>: a value of at
  most \<open>2 ^ -150\<close> rounds to \<open>0.0\<close>. That underflow decides a comparison with a threshold
  of zero, so the model keeps it; above it the exact exponential stands for the rounded
  one.
\<close>

definition tf_exp :: "real \<Rightarrow> real" where
  "tf_exp x = (if exp x \<le> 1 / 2 ^ 150 then 0 else exp x)"

definition reduce_max :: "vec \<Rightarrow> real option" where
  "reduce_max v = (case v of [] \<Rightarrow> None | x # xs \<Rightarrow> Some (fold max xs x))"

definition row_probability :: "mat \<Rightarrow> real option" where
  "row_probability u_probs =
     (if u_probs = [] \<or> list_ex (\<lambda>tok. tok = []) u_probs then None
      else Some (sum_list (map (\<lambda>tok. fold max (tl tok) (hd tok)) u_probs) / real (length u_probs)))"

definition sequence_probabilities ::
  "bool \<Rightarrow> tensor3 \<Rightarrow> nat list list \<Rightarrow> nat list \<Rightarrow> mat \<Rightarrow> tensor3 \<Rightarrow> error + real option list" where
  "sequence_probabilities use_crf u_logits u_targets u_lengths transition_params u_probs =
     (if use_crf then
        (case crf_log_likelihood u_logits u_targets u_lengths transition_params of
           Inl e \<Rightarrow> Inl e
         | Inr u_log_likelihood \<Rightarrow> Inr (map (\<lambda>l. Some (tf_exp l)) u_log_likelihood))
      else Inr (map row_probability u_probs))"

text \<open>\<^verbatim>\<open>tf.greater(u_seq_probs, threshes)\<close> and \<^verbatim>\<open>tf.boolean_mask\<close>.\<close>

definition greater_mask :: "real option list \<Rightarrow> real \<Rightarrow> bool list" where
  "greater_mask u_seq_probs thresh =
     map (\<lambda>p. case p of None \<Rightarrow> False | Some x \<Rightarrow> x > thresh) u_seq_probs"

definition boolean_mask :: "'a list \<Rightarrow> bool list \<Rightarrow> 'a list" where
  "boolean_mask x keep = map fst (filter snd (zip x keep))"

definition pseudo_label ::
  "collaborators \<Rightarrow> variables \<Rightarrow> tensor3 \<Rightarrow> nat list list option \<Rightarrow> nat \<Rightarrow> config \<Rightarrow> bool
     \<Rightarrow> nat list option \<Rightarrow> bool \<Rightarrow> vec option \<Rightarrow> error + (tensor3, params) head_output" where
  "pseudo_label env vars hidden targets n_targets config train lengths use_crf class_weights =
     (case dense vars (n_embed config) n_targets hidden of
        Inl e \<Rightarrow> Inl e
      | Inr logits_t \<Rightarrow>
          let lengths = (case lengths of None \<Rightarrow> default_lengths hidden | Some l \<Rightarrow> l) in
          (case get_variable2 vars ''Transition_matrix'' n_targets n_targets of
             Inl e \<Rightarrow> Inl e
           | Inr transition_params \<Rightarrow>
               (case targets of
                  None \<Rightarrow>
                    (case reweight_logits class_weights train None n_targets logits_t of
                       Inl e \<Rightarrow> Inl e
                     | Inr logits_t \<Rightarrow>
                         Inr \<lparr>logits = logits_t, losses = Some (Scalar 0),
                              predict_params = \<lparr>transition_matrix = Transition transition_params,
                                                 sequence_length = lengths\<rparr>\<rparr>)
                | Some targets \<Rightarrow>
                    let u_logits = drop (length targets) logits_t;
                        u_lengths = drop (length targets) lengths;
                        logits_t = take (length targets) logits_t;
                        lengths = take (length targets) lengths;
                        (u_targets, u_probs) =
                          sequence_decode env u_logits transition_params u_lengths use_crf
                    in
                    (case sequence_probabilities use_crf u_logits u_targets u_lengths transition_params
                            u_probs of
                       Inl e \<Rightarrow> Inl e
                     | Inr u_seq_probs \<Rightarrow>
                         let mask = greater_mask u_seq_probs (pseudo_thresh config) in
                         if length mask \<noteq> length u_logits \<or> length u_lengths \<noteq> length u_logits
                            \<or> length u_targets \<noteq> length u_logits
                         then Inl InvalidArgumentError
                         else
                           let logits_t = logits_t @ boolean_mask u_logits mask;
                               lengths = lengths @ boolean_mask u_lengths mask;
                               targets = targets @ boolean_mask u_targets mask
                           in
                           (case reweight_logits class_weights train (Some targets) n_targets logits_t of
                              Inl e \<Rightarrow> Inl e
                            | Inr logits_t \<Rightarrow>
                                (case labeler_loss n_targets use_crf targets logits_t lengths
                                        transition_params of
                                   Inl e \<Rightarrow> Inl e
                                 | Inr loss \<Rightarrow>
                                     Inr \<lparr>logits = logits_t, losses = Some loss,
                                          predict_params =
                                            \<lparr>transition_matrix = Transition transition_params,
                                             sequence_length = lengths\<rparr>\<rparr>))))))"

text \<open>
  What the theorems on pseudo-labelling ask of the probabilities that \<^verbatim>\<open>sequence_decode\<close>
  returns when the CRF is off: every row has a position, every position a class, and
  every entry lies in (0, 1], as the entries of a softmax do.
\<close>

definition probability_rows :: "tensor3 \<Rightarrow> bool" where
  "probability_rows u_probs =
     list_all (\<lambda>row. row \<noteq> [] \<and> list_all (\<lambda>tok. tok \<noteq> [] \<and> list_all (\<lambda>q. 0 < q \<and> q \<le> 1) tok) row) u_probs"

section \<open>Concrete inputs\<close>

text \<open>Small inputs on which the properties below are exercised.\<close>


definition plain_env :: collaborators where
  "plain_env = \<lparr>dropout = (\<lambda>x p t. x), seq_label_attn = (\<lambda>h. h), featurizer_fn = (\<lambda>e. e),
     ema_featurizer_fn = (\<lambda>e. e), tsa_filter = (\<lambda>m l t n c tr s. ([], [], [])),
     warmup_constant = (\<lambda>x w. if x \<le> w then x / w else 1),
     sequence_decode = (\<lambda>l tr n c. (map (map (\<lambda>tok. 0)) l, l)),
     global_step = 0, adv_loss = 1, shuffle_indicies = [0], lam_mix = [1 / 2], lam_ema = [1 / 2]\<rparr>"

definition regressor_vars :: variables where
  "regressor_vars = \<lparr>matrices = [''perceptron/w'' \<mapsto> [[2]]], vectors = [''perceptron/b'' \<mapsto> [1]]\<rparr>"

definition regressor_config :: "string \<Rightarrow> config" where
  "regressor_config kind = \<lparr>n_embed = 1, clf_p_drop = 0, regression_loss = kind, is_bidirectional = True,
     low_memory_mode = False, tsa_method = None, ssl_loss_coef = 1, pseudo_thresh = 1 / 2\<rparr>"



definition ssl_vars :: variables where
  "ssl_vars = \<lparr>matrices = [''dense/kernel'' \<mapsto> [[1, 0]], ''Transition_matrix'' \<mapsto> [[0, 0], [0, 0]]],
               vectors = [''dense/bias'' \<mapsto> [0, 0]]\<rparr>"

definition ssl_config :: "string option \<Rightarrow> config" where
  "ssl_config tsa = \<lparr>n_embed = 1, clf_p_drop = 0, regression_loss = ''L2'', is_bidirectional = True,
     low_memory_mode = False, tsa_method = tsa, ssl_loss_coef = 1, pseudo_thresh = 1 / 2\<rparr>"

definition busy_env :: collaborators where
  "busy_env = plain_env\<lparr>global_step := 5, adv_loss := 3\<rparr>"

definition apart_env :: collaborators where
  "apart_env = plain_env\<lparr>featurizer_fn := map (map (map (\<lambda>x. x * x))),
     ema_featurizer_fn := map (map (map (\<lambda>x. x * x))),
     shuffle_indicies := [1, 0], lam_mix := [1 / 2, 1 / 2], lam_ema := [1 / 2, 1 / 2]\<rparr>"



definition warm_env :: collaborators where
  "warm_env = apart_env\<lparr>global_step := 1, adv_loss := 3\<rparr>"

definition labeler_vars :: variables where
  "labeler_vars = \<lparr>matrices = [''dense/kernel'' \<mapsto> replicate 8 [0, 0, 0],
                                   ''Transition_matrix'' \<mapsto> replicate 3 [0, 0, 0]],
                   vectors = [''dense/bias'' \<mapsto> [0, 0, 0]]\<rparr>"

definition labeler_config :: config where
  "labeler_config = \<lparr>n_embed = 8, clf_p_drop = 0, regression_loss = ''L2'', is_bidirectional = True,
     low_memory_mode = False, tsa_method = None, ssl_loss_coef = 1, pseudo_thresh = 1 / 2\<rparr>"

definition labeler_hidden :: tensor3 where
  "labeler_hidden = replicate 2 (replicate 5 (replicate 8 0))"

definition labeler_targets :: "nat list list" where
  "labeler_targets = [[0, 1, 2, 0, 1], [2, 1, 0, 0, 0]]"

definition pseudo_config :: "real \<Rightarrow> config" where
  "pseudo_config thresh = (ssl_config None)\<lparr>pseudo_thresh := thresh\<rparr>"


section \<open>Verified properties\<close>

subsection \<open>Class-weight normalisation\<close>


lemma sum_list_scale: "sum_list (map (\<lambda>w. w * c) ws) = sum_list ws * (c::real)"
  by (induction ws) (simp_all add: algebra_simps)

lemma reduce_sum_renormalize:
  "reduce_sum ws \<noteq> 0 \<Longrightarrow> reduce_sum (renormalize ws) = real (length ws)"
  unfolding reduce_sum_def renormalize_def sum_list_scale by simp

lemma reduce_sum2_scale: "reduce_sum2 (map (map (\<lambda>w. w * c)) m) = reduce_sum2 m * c"
  by (induction m) (simp_all add: reduce_sum2_def sum_list_scale algebra_simps)

lemma reduce_sum2_renormalize2:
  "reduce_sum2 m \<noteq> 0 \<Longrightarrow> reduce_sum2 (renormalize2 m) = real (size2 m)"
  unfolding renormalize2_def reduce_sum2_scale by simp

lemma size2_rectangular: "rectangular n m \<Longrightarrow> size2 m = length m * n"
  by (induction m) (simp_all add: size2_def rectangular_def)

lemma size2_multilabel_lookup:
  "has_shape2 b n targets \<Longrightarrow> length cw = n \<Longrightarrow> size2 (multilabel_lookup cw targets) = b * n"
proof -
  assume h: "has_shape2 b n targets" and l: "length cw = n"
  have "rectangular n (multilabel_lookup cw targets)"
    using h l by (auto simp: rectangular_def has_shape2_def multilabel_lookup_def list_all_iff)
  moreover have "length (multilabel_lookup cw targets) = b"
    using h by (simp add: has_shape2_def multilabel_lookup_def)
  ultimately show ?thesis using size2_rectangular by blast
qed

lemma reduce_sum3_scale_sq:
  "reduce_sum3 (map (map (map (\<lambda>x. x * x))) (scale3 r g)) = reduce_sum3 (map (map (map (\<lambda>x. x * x))) g) * (r * r)"
proof -
  have a: "\<And>row. sum_list (map (\<lambda>x. x * x) (map (\<lambda>x. x * r) row)) = sum_list (map (\<lambda>x. x * x) row) * (r * r)"
    subgoal for row by (induction row) (simp_all add: algebra_simps)
    done
  have b: "\<And>m. reduce_sum2 (map (map (\<lambda>x. x * x)) (map (map (\<lambda>x. x * r)) m)) = reduce_sum2 (map (map (\<lambda>x. x * x)) m) * (r * r)"
    subgoal for m using a by (induction m) (simp_all add: reduce_sum2_def algebra_simps)
    done
  show ?thesis using b by (induction g) (simp_all add: reduce_sum3_def scale3_def algebra_simps)
qed

lemma reduce_sum3_sq_nonneg: "0 \<le> reduce_sum3 (map (map (map (\<lambda>x. x * x))) g)"
proof -
  have a: "\<And>row::real list. 0 \<le> sum_list (map (\<lambda>x. x * x) row)"
    subgoal for row by (induction row) simp_all
    done
  have b: "\<And>m::mat. 0 \<le> reduce_sum2 (map (map (\<lambda>x. x * x)) m)"
    subgoal for m using a by (induction m) (simp_all add: reduce_sum2_def)
    done
  show ?thesis using b by (induction g) (simp_all add: reduce_sum3_def)
qed

lemma norm3_nonneg: "0 \<le> norm3 g"
  by (simp add: norm3_def reduce_sum3_sq_nonneg)

lemma norm3_scale3: "norm3 (scale3 r g) = norm3 g * \<bar>r\<bar>"
  by (simp add: norm3_def reduce_sum3_scale_sq real_sqrt_mult)

lemma norm3_class_reweighting_grad:
  "norm3 (token_mul g w) \<noteq> 0 \<Longrightarrow> norm3 (class_reweighting_grad w g) = norm3 g"
proof -
  assume nz: "norm3 (token_mul g w) \<noteq> 0"
  have "0 \<le> norm3 g / norm3 (token_mul g w)"
    by (simp add: norm3_nonneg)
  then have "\<bar>norm3 g / norm3 (token_mul g w)\<bar> = norm3 g / norm3 (token_mul g w)"
    by (rule abs_of_nonneg)
  then have "norm3 (token_mul g w) * \<bar>norm3 g / norm3 (token_mul g w)\<bar> = norm3 g"
    using nz by simp
  then show ?thesis
    unfolding class_reweighting_grad_def Let_def norm3_scale3 .
qed

lemma sqrt9: "sqrt 9 = 3" using real_sqrt_abs[of 3] by simp
lemma sqrt25: "sqrt 25 = 5" using real_sqrt_abs[of 5] by simp


text \<open>
  C1 (as the code has it). The claim asks that after class-weight rescaling the effective
  weights of a batch sum to the batch size, on the single-label path, the multilabel path
  and in the custom gradient of the sequence labeler. On the code: the single-label
  weights sum to the batch size whenever the looked-up weights do not sum to zero; the
  multilabel weights, of shape \<open>[batch, n_targets]\<close>, sum to the number of their
  entries \<open>batch * n_targets\<close>; the custom gradient leaves the forward value alone and
  keeps the Euclidean norm of the gradient, not the sum of the weights.
\<close>

theorem class_weight_normalization:
  "(reduce_sum (class_weight_lookup cw targets) \<noteq> 0 \<longrightarrow>
      reduce_sum (single_label_weights cw targets) = real (length targets)) \<and>
   (has_shape2 b n mtargets \<and> length mcw = n \<and> reduce_sum2 (multilabel_lookup mcw mtargets) \<noteq> 0 \<longrightarrow>
      reduce_sum2 (multilabel_weights mcw mtargets) = real (b * n)) \<and>
   (norm3 (token_mul g w) \<noteq> 0 \<longrightarrow>
      class_reweighting_forward w g = g \<and> norm3 (class_reweighting_grad w g) = norm3 g)"
proof (intro conjI impI)
  assume "reduce_sum (class_weight_lookup cw targets) \<noteq> 0"
  then show "reduce_sum (single_label_weights cw targets) = real (length targets)"
    using reduce_sum_renormalize[of "class_weight_lookup cw targets"]
    by (simp add: single_label_weights_def class_weight_lookup_def)
next
  assume h: "has_shape2 b n mtargets \<and> length mcw = n \<and> reduce_sum2 (multilabel_lookup mcw mtargets) \<noteq> 0"
  then show "reduce_sum2 (multilabel_weights mcw mtargets) = real (b * n)"
    using reduce_sum2_renormalize2[of "multilabel_lookup mcw mtargets"] size2_multilabel_lookup[of b n mtargets mcw]
    by (simp add: multilabel_weights_def)
next
  show "class_reweighting_forward w g = g" by (simp add: class_reweighting_forward_def)
next
  assume "norm3 (token_mul g w) \<noteq> 0"
  then show "norm3 (class_reweighting_grad w g) = norm3 g" by (rule norm3_class_reweighting_grad)
qed


theorem class_weight_normalization_witness:
  "reduce_sum (single_label_weights [1, 3] [[1, 0], [0, 1], [0, 1]]) = 3 \<and>
   reduce_sum2 (multilabel_weights [1, 3] [[1, 0], [0, 1]]) = 4 \<and>
   norm3 (class_reweighting_grad [[1, 0]] [[[3], [4]]]) = norm3 [[[3], [4]]]"
  using class_weight_normalization[of "[1, 3]" "[[1, 0], [0, 1], [0, 1]]" 2 2 "[[1, 0], [0, 1]]" "[1, 3]" "[[[3], [4]]]" "[[1, 0]]"]
  by (simp add: reduce_sum_def class_weight_lookup_def has_shape2_def rectangular_def
      multilabel_lookup_def reduce_sum2_def norm3_def token_mul_def reduce_sum3_def sqrt9)


text \<open>
  The claim as stated fails: for one row and two classes the multilabel weights sum to 2;
  for one row of two tokens with gradient rows 3 and 4 and token weights 1 and 0 the
  effective weights of the custom gradient sum to 5/3, neither the batch size 1 nor the
  number of tokens 2; and all-zero class weights make
  the rescaling factor a division by zero (not a number in TensorFlow, 0 here), so the
  weights do not sum to the batch size 1 either.
\<close>

theorem class_weight_sum_counterexample:
  "reduce_sum2 (multilabel_weights [1, 1] [[1, 0]]) \<noteq> real (length [[1, 0 :: real]]) \<and>
   reduce_sum2 (effective_token_weights [[1, 0]] [[[3], [4]]]) \<noteq> real (length [[[3], [4 :: real]]]) \<and>
   reduce_sum2 (effective_token_weights [[1, 0]] [[[3], [4]]]) \<noteq> real (size2 [[1, 0]]) \<and>
   reduce_sum (single_label_weights [0, 0] [[1, 0]]) \<noteq> real (length [[1, 0 :: real]])"
  by (simp add: multilabel_weights_def renormalize2_def multilabel_lookup_def reduce_sum2_def size2_def
      effective_token_weights_def norm3_def token_mul_def reduce_sum3_def sqrt9 sqrt25
      single_label_weights_def renormalize_def class_weight_lookup_def reduce_sum_def)

subsection \<open>The CRF log-likelihood is never positive\<close>


lemma exp_le_sum_exp: "i < length xs \<Longrightarrow> exp (xs ! i) \<le> sum_list (map exp (xs :: real list))"
proof (induction xs arbitrary: i)
  case Nil
  then show ?case by simp
next
  case (Cons x xs)
  have nn: "0 \<le> sum_list (map exp xs)" by (induction xs) simp_all
  show ?case
  proof (cases i)
    case 0
    then show ?thesis using nn by simp
  next
    case (Suc j)
    then have "exp (xs ! j) \<le> sum_list (map exp xs)" using Cons by simp
    moreover have "0 \<le> exp x" by simp
    ultimately have "exp (xs ! j) \<le> exp x + sum_list (map exp xs)" by linarith
    then show ?thesis using Suc by simp
  qed
qed

lemma logsumexp_ge: "i < length xs \<Longrightarrow> xs ! i \<le> logsumexp xs"
proof -
  assume i: "i < length xs"
  have le: "exp (xs ! i) \<le> sum_list (map exp xs)" using i by (rule exp_le_sum_exp)
  have pos: "0 < exp (xs ! i)" by simp
  have "ln (exp (xs ! i)) \<le> ln (sum_list (map exp xs))"
    using le pos by (intro ln_mono) simp_all
  then show ?thesis by (simp add: logsumexp_def)
qed

lemma length_scan_fn: "length (scan_fn tr st x) = length x"
  by (simp add: scan_fn_def)

lemma length_crf_forward:
  "rectangular n inputs \<Longrightarrow> k < length inputs \<Longrightarrow> length (crf_forward tr inputs k) = n"
  by (cases k) (simp_all add: rectangular_def list_all_length length_scan_fn)

lemma scan_fn_ge:
  assumes "j < length x" "i < length st" "i < length tr"
  shows "x ! j + (st ! i + tr ! i ! j) \<le> scan_fn tr st x ! j"
proof -
  let ?ys = "map2 (\<lambda>s row. s + row ! j) st tr"
  have "i < length ?ys" using assms by simp
  then have "?ys ! i \<le> logsumexp ?ys" by (rule logsumexp_ge)
  moreover have "?ys ! i = st ! i + tr ! i ! j" using assms by simp
  ultimately show ?thesis using assms by (simp add: scan_fn_def)
qed

lemma forward_ge_prefix:
  assumes rect: "rectangular n inputs" and tr: "length tr = n"
    and lt: "length tags = length inputs" and tags: "list_all (\<lambda>tag. tag < n) tags"
  shows "k < length inputs \<Longrightarrow>
     crf_sequence_score inputs tags (Suc k) tr \<le> crf_forward tr inputs k ! (tags ! k)"
proof (induction k)
  case 0
  then show ?case
    by (simp add: crf_sequence_score_def crf_unary_score_def crf_binary_score_def)
next
  case (Suc k)
  then have k: "k < length inputs" and sk: "Suc k < length inputs" by simp_all
  have ih: "crf_sequence_score inputs tags (Suc k) tr \<le> crf_forward tr inputs k ! (tags ! k)"
    using Suc.IH k by simp
  have ti: "tags ! k < n" and tj: "tags ! Suc k < n"
    using tags lt k sk by (simp_all add: list_all_length)
  have lx: "length (inputs ! Suc k) = n" using rect sk by (simp add: rectangular_def list_all_length)
  have lf: "length (crf_forward tr inputs k) = n" using rect k by (rule length_crf_forward)
  have step: "inputs ! Suc k ! (tags ! Suc k)
        + (crf_forward tr inputs k ! (tags ! k) + tr ! (tags ! k) ! (tags ! Suc k))
      \<le> scan_fn tr (crf_forward tr inputs k) (inputs ! Suc k) ! (tags ! Suc k)"
    by (rule scan_fn_ge) (simp_all add: lx lf tr ti tj)
  have unfold: "crf_sequence_score inputs tags (Suc (Suc k)) tr =
      crf_sequence_score inputs tags (Suc k) tr + inputs ! Suc k ! (tags ! Suc k)
        + tr ! (tags ! k) ! (tags ! Suc k)"
    by (simp add: crf_sequence_score_def crf_unary_score_def crf_binary_score_def)
  show ?case using ih step unfold by simp
qed

lemma crf_row_log_likelihood_nonpos:
  assumes ok: "crf_row_ok n inputs tags len" and tr: "length tr = n"
  shows "crf_row_log_likelihood tr inputs tags len \<le> 0"
proof (cases len)
  case 0
  then show ?thesis
    by (simp add: crf_row_log_likelihood_def crf_sequence_score_def crf_unary_score_def
        crf_binary_score_def crf_log_norm_def)
next
  case (Suc k)
  have rect: "rectangular n inputs" and lt: "length tags = length inputs"
    and tags: "list_all (\<lambda>tag. tag < n) tags" and k: "k < length inputs"
    using ok Suc by (simp_all add: crf_row_ok_def)
  have a: "crf_sequence_score inputs tags (Suc k) tr \<le> crf_forward tr inputs k ! (tags ! k)"
    using rect tr lt tags k by (rule forward_ge_prefix)
  have "tags ! k < n" using tags lt k by (simp add: list_all_length)
  then have "tags ! k < length (crf_forward tr inputs k)"
    using length_crf_forward[OF rect k] by simp
  then have b: "crf_forward tr inputs k ! (tags ! k) \<le> logsumexp (crf_forward tr inputs k)"
    by (rule logsumexp_ge)
  show ?thesis using a b Suc by (simp add: crf_row_log_likelihood_def crf_log_norm_def)
qed

lemma crf_log_likelihood_nonpos:
  assumes "crf_log_likelihood inputs tags lens tr = Inr ll"
  shows "list_all (\<lambda>l. l \<le> 0) ll" and "length ll = length inputs"
proof -
  let ?rows = "zip inputs (zip tags lens)"
  have g: "length tags = length inputs" "length lens = length inputs"
      "list_all (\<lambda>(x, t, len). crf_row_ok (length tr) x t len) ?rows"
    and ll: "ll = map (\<lambda>(x, t, len). crf_row_log_likelihood tr x t len) ?rows"
    using assms by (auto simp: crf_log_likelihood_def Let_def split: if_splits)
  show "list_all (\<lambda>l. l \<le> 0) ll"
    unfolding ll list_all_iff
  proof
    fix l assume "l \<in> set (map (\<lambda>(x, t, len). crf_row_log_likelihood tr x t len) ?rows)"
    then obtain x t len where m: "(x, t, len) \<in> set ?rows" and l: "l = crf_row_log_likelihood tr x t len"
      by auto
    have "crf_row_ok (length tr) x t len" using g(3) m by (auto simp: list_all_iff)
    then show "l \<le> 0" unfolding l by (rule crf_row_log_likelihood_nonpos) simp
  qed
  show "length ll = length inputs" using g by (simp add: ll)
qed

subsection \<open>Regressor loss kinds\<close>

lemma upper_l1: "upper ''l1'' = ''L1''" "upper ''l2'' = ''L2''" "upper ''huber'' = ''HUBER''"
  by code_simp+

lemma perceptron_example:
  "perceptron regressor_vars [[1], [3]] 1 (regressor_config kind) = Inr [[3], [7]]"
  by (simp add: perceptron_def regressor_vars_def regressor_config_def get_variable2_def get_variable1_def
      has_shape2_def rectangular_def affine_row_def transpose_rows_def dot_def)

lemma subtract2_shape: "same_shape2 a b \<Longrightarrow> same_shape2 (map (map f) (subtract2 a b)) a"
proof -
  assume h: "same_shape2 a b"
  then have l: "length a = length b" unfolding same_shape2_def by (metis length_map)
  have "map length (map (map f) (subtract2 a b)) = map length a"
  proof (rule nth_equalityI)
    show "length (map length (map (map f) (subtract2 a b))) = length (map length a)"
      using l by (simp add: subtract2_def)
  next
    fix i assume "i < length (map length (map (map f) (subtract2 a b)))"
    then have i: "i < length a" using l by (simp add: subtract2_def)
    have "length (a ! i) = length (b ! i)"
      using h i l unfolding same_shape2_def by (metis nth_map)
    then show "map length (map (map f) (subtract2 a b)) ! i = map length a ! i"
      using i l by (simp add: subtract2_def)
  qed
  then show ?thesis by (simp add: same_shape2_def)
qed

text \<open>
  C8 (as the code has it). Given a hidden state that the perceptron accepts and targets
  of the shape of the outputs, the regressor returns \<^verbatim>\<open>tf.nn.l2_loss\<close> of the residual
  (half the summed squares) when the upper-cased loss kind is \<open>L2\<close>; when it is \<open>L1\<close> it
  returns the element-wise absolute residuals \<^verbatim>\<open>tf.abs(outputs - targets)\<close>, unreduced and
  of the shape of the outputs; for every other kind, and targets of any shape, the call
  itself raises \<^verbatim>\<open>FinetuneError\<close> with a message that names the configured kind.
\<close>

theorem regressor_loss_kinds:
  assumes "perceptron vars (dropout env hidden (clf_p_drop config) train) n_targets config = Inr outputs"
  shows "(upper (regression_loss config) = ''L2'' \<and> same_shape2 outputs targets \<longrightarrow>
            regressor env vars hidden (Some targets) n_targets config train =
              Inr \<lparr>logits = outputs, losses = Some (Scalar (l2_loss (subtract2 outputs targets))),
                   predict_params = ()\<rparr>) \<and>
         (upper (regression_loss config) = ''L1'' \<and> same_shape2 outputs targets \<longrightarrow>
            regressor env vars hidden (Some targets) n_targets config train =
              Inr \<lparr>logits = outputs, losses = Some (Matrix (map (map abs) (subtract2 outputs targets))),
                   predict_params = ()\<rparr>
            \<and> same_shape2 (map (map abs) (subtract2 outputs targets)) outputs) \<and>
         (upper (regression_loss config) \<noteq> ''L2'' \<and> upper (regression_loss config) \<noteq> ''L1'' \<longrightarrow>
            regressor env vars hidden (Some targets) n_targets config train =
              Inl (FinetuneError (''regression_loss needs to be either L1 or L2, instead it is ''
                     @ regression_loss config)))"
  using assms subtract2_shape[of outputs targets abs] by (simp add: regressor_def Let_def)

theorem regressor_loss_kinds_witness:
  "regressor plain_env regressor_vars [[1], [3]] (Some [[1], [4]]) 1 (regressor_config ''l2'') False =
     Inr \<lparr>logits = [[3], [7]], losses = Some (Scalar (13 / 2)), predict_params = ()\<rparr> \<and>
   regressor plain_env regressor_vars [[1], [3]] (Some [[1], [4]]) 1 (regressor_config ''l1'') False =
     Inr \<lparr>logits = [[3], [7]], losses = Some (Matrix [[2], [3]]), predict_params = ()\<rparr> \<and>
   regressor plain_env regressor_vars [[1], [3]] (Some [[1], [4]]) 1 (regressor_config ''huber'') False =
     Inl (FinetuneError ''regression_loss needs to be either L1 or L2, instead it is huber'')"
proof -
  have p: "perceptron regressor_vars (dropout plain_env [[1], [3]] (clf_p_drop (regressor_config kind)) False) 1
      (regressor_config kind) = Inr [[3], [7]]" for kind
    using perceptron_example[of kind] by (simp add: plain_env_def)
  have k: "regression_loss (regressor_config kind) = kind" for kind
    by (simp add: regressor_config_def)
  show ?thesis
    using regressor_loss_kinds[OF p, of "''l2''" "[[1], [4]]"]
      regressor_loss_kinds[OF p, of "''l1''" "[[1], [4]]"]
      regressor_loss_kinds[OF p, of "''huber''" "[[1], [4]]"]
    by (simp add: k upper_l1 l2_loss_def subtract2_def reduce_sum2_def same_shape2_def)
qed

text \<open>
  The claim as stated asks for the mean absolute error on the L1 branch. For outputs
  3 and 7 against targets 1 and 4 the code returns the matrix of residuals 2 and 3,
  not their mean 5/2.
\<close>

theorem regressor_l1_counterexample:
  "regressor plain_env regressor_vars [[1], [3]] (Some [[1], [4]]) 1 (regressor_config ''L1'') False =
     Inr \<lparr>logits = [[3], [7]], losses = Some (Matrix [[2], [3]]), predict_params = ()\<rparr> \<and>
   spec_mean_absolute_error [[3], [7]] [[1], [4]] = Scalar (5 / 2)"
proof -
  have p: "perceptron regressor_vars (dropout plain_env [[1], [3]] (clf_p_drop (regressor_config ''L1'')) False) 1
      (regressor_config ''L1'') = Inr [[3], [7]]"
    using perceptron_example[of "''L1''"] by (simp add: plain_env_def)
  have u: "upper (regression_loss (regressor_config ''L1'')) = ''L1''"
    unfolding regressor_config_def by code_simp
  show ?thesis
    using p u
    by (simp add: regressor_def Let_def subtract2_def spec_mean_absolute_error_def size2_def reduce_sum2_def
        same_shape2_def)
qed

subsection \<open>The device of the CRF block\<close>

lemma ssl_dense: "dense ssl_vars (n_embed (ssl_config tsa)) 2 [[[x]]] = Inr [[[x, 0]]]"
  by (simp add: dense_def ssl_vars_def ssl_config_def get_variable2_def get_variable1_def has_shape2_def
      rectangular_def affine_row_def transpose_rows_def dot_def)

lemma ssl_coef_one: "ssl_loss_coef (ssl_config tsa) = 1"
  by (simp add: ssl_config_def)

lemma ssl_transition:
  "get_variable2 ssl_vars ''Transition_matrix'' 2 2 = Inr [[0, 0], [0, 0]]"
  by (simp add: ssl_vars_def get_variable2_def has_shape2_def rectangular_def)

lemma crf_one_token:
  "crf_log_likelihood [[[x, 0]]] [[0]] [Suc 0] [[0, 0], [0, 0]] =
     Inr [crf_row_log_likelihood [[0, 0], [0, 0]] [[x, 0]] [0] (Suc 0)]"
  by (simp add: crf_log_likelihood_def crf_row_ok_def rectangular_def)

lemma crf_empty: "crf_log_likelihood [] [] [] [[0, 0], [0, 0]] = Inr []"
  by (simp add: crf_log_likelihood_def rectangular_def)

lemma supervised_name_error:
  "use_crf \<Longrightarrow> \<not> train \<Longrightarrow>
   supervised_loss env config False n use_crf train steps tr lg tg lens = Inl (NameError ''device'')"
  by (simp add: supervised_loss_def Let_def split: prod.splits)

text \<open>
  C10. The claim asks that \<^verbatim>\<open>vat\<close> and \<^verbatim>\<open>mean_teacher\<close>, called with targets and with the
  CRF, return their dictionary for \<^verbatim>\<open>train=True\<close> and for \<^verbatim>\<open>train=False\<close>. On one labeled
  row of one token, with \<^verbatim>\<open>train=False\<close>, both raise \<^verbatim>\<open>NameError\<close> for \<^verbatim>\<open>device\<close>;
  \<^verbatim>\<open>ict\<close>, which binds the name, returns on the same input, and so do the two functions
  with \<^verbatim>\<open>train=True\<close>.
\<close>

theorem device_unbound_failing_input:
  "vat plain_env ssl_vars [[[1]]] (Some [[0]]) 2 (ssl_config None) False None True None 10
     = Inl (NameError ''device'') \<and>
   mean_teacher plain_env ssl_vars [[[1]]] (Some [[0]]) 2 (ssl_config None) False None True [[[1]]] None 10
     = Inl (NameError ''device'') \<and>
   \<not> isl (ict plain_env ssl_vars [[[1]]] (Some [[0]]) 2 (ssl_config None) False None True [[[1]]] None 10) \<and>
   \<not> isl (vat plain_env ssl_vars [[[1]]] (Some [[0]]) 2 (ssl_config None) True None True None 10) \<and>
   \<not> isl (mean_teacher plain_env ssl_vars [[[1]]] (Some [[0]]) 2 (ssl_config None) True None True [[[1]]] None 10)"
proof -
  have tsa: "\<not> tsa_configured (ssl_config None)"
    by (simp add: tsa_configured_def ssl_config_def)
  have u: "mean_teacher_u_loss plain_env ssl_vars (ssl_config None) 2 [[[1, 0]]] [[[1]]] = Inr (Scalar 0)"
    by (simp add: mean_teacher_u_loss_def plain_env_def ssl_dense consistency_loss_def mse_token_def size2_def
        reduce_sum2_def)
  have iu: "ict_u_loss plain_env ssl_vars (ssl_config None) 2 [[[1]]] = Inr (Scalar 0)"
    by (simp add: ict_u_loss_def plain_env_def draws_ok_def gather_def interpolate_def ssl_dense
        consistency_loss_def mse_token_def size2_def reduce_sum2_def Let_def)
  have sup: "(train \<or> b) \<Longrightarrow>
      supervised_loss plain_env (ssl_config None) b 2 True train 10 [[0, 0], [0, 0]] [[[1, 0]]] [[0]] [Suc 0]
        = Inr ([[[1, 0]]], [Suc 0], Scalar (- crf_row_log_likelihood [[0, 0], [0, 0]] [[1, 0]] [0] (Suc 0)))"
    for train b
    by (auto simp add: supervised_loss_def tsa labeler_loss_def crf_one_token Let_def)
  show ?thesis
    by (simp add: vat_def mean_teacher_def ict_def ssl_dense ssl_transition reweight_logits_def
        default_lengths_def supervised_name_error sup u iu Let_def)
qed

subsection \<open>Consistency loss of identical models\<close>


lemma length_affine_row: "length (affine_row w bias x) = length bias"
  by (simp add: affine_row_def transpose_rows_def)

lemma dense_shape:
  assumes "dense vars nx units x = Inr y"
  shows "map length y = map length x" and "list_all (rectangular units) y"
proof -
  obtain w bias where y: "y = map (map (affine_row w bias)) x" and b: "length bias = units"
    using assms
    by (auto simp: dense_def get_variable1_def split: sum.splits option.splits if_splits)
  show "map length y = map length x" by (simp add: y)
  show "list_all (rectangular units) y"
    by (simp add: y rectangular_def list_all_iff length_affine_row b)
qed

lemma mse_token_self: "mse_token p p = 0"
proof -
  have "sum_list (map2 (\<lambda>x y. (x - y) * (x - y)) p p) = (0::real)"
    by (induction p) simp_all
  then show ?thesis by (simp add: mse_token_def)
qed

lemma map2_same: "map2 f xs xs = map (\<lambda>x. f x x) xs"
  by (induction xs) simp_all

lemma reduce_sum2_zero: "reduce_sum2 (map (map (\<lambda>x. 0)) m) = 0"
  by (induction m) (simp_all add: reduce_sum2_def)

lemma size2_map: "size2 (map (map f) m) = size2 m"
  by (simp add: size2_def comp_def)

lemma consistency_loss_self:
  assumes tok: "list_all (rectangular n) e" and n: "0 < n" and sz: "0 < size2 e"
  shows "consistency_loss e e = Inr (Scalar 0)"
proof -
  have ne: "\<not> list_ex (list_ex (\<lambda>tok. tok = [])) e"
    using tok n by (auto simp: list_ex_iff list_all_iff rectangular_def)
  have m: "map2 (map2 mse_token) e e = map (map (\<lambda>x. 0)) e"
    by (simp add: map2_same mse_token_self)
  have s: "size2 (map (map (\<lambda>x. 0::real)) e) = size2 e"
    by (simp add: size2_def comp_def)
  show ?thesis using ne sz by (simp add: consistency_loss_def m reduce_sum2_zero s)
qed

lemma size2_shape3: "has_shape3 b s d t \<Longrightarrow> size2 t = b * s"
proof -
  assume h: "has_shape3 b s d t"
  then have "rectangular s t" by (auto simp: has_shape3_def has_shape2_def rectangular_def list_all_iff)
  then have "size2 t = length t * s"
    by (induction t) (simp_all add: size2_def rectangular_def)
  then show ?thesis using h by (simp add: has_shape3_def)
qed

lemma size2_same_lengths: "map length y = map length x \<Longrightarrow> size2 y = size2 x"
  by (simp add: size2_def)

lemma interpolate_self: "length lam = length x \<Longrightarrow> interpolate lam x x = x"
proof (induction lam x rule: list_induct2)
  case Nil
  then show ?case by (simp add: interpolate_def)
next
  case (Cons l lam a x)
  have row: "map2 (map2 (\<lambda>p q. l * p + (1 - l) * q)) a a = a"
    by (simp add: map2_same algebra_simps)
  show ?case using Cons.IH by (simp add: interpolate_def row)
qed

lemma gather_identity: "gather x [0..<length x] = x"
  by (simp add: gather_def map_nth)

text \<open>
  C6 (as the code has it). On a batch with at least one token and one class: when the
  featurizer under the EMA getter returns the hidden state of the live model, the
  consistency loss of \<^verbatim>\<open>mean_teacher\<close> is 0; the consistency loss of \<^verbatim>\<open>ict\<close> is 0 when,
  besides, the shuffle pairs every row with itself. (\<^verbatim>\<open>ict\<close> compares the model on mixed
  inputs with a mix of the teacher's outputs under a second draw of the coefficients.)
\<close>

theorem consistency_zero_when_identical:
  assumes shp: "has_shape3 b s (n_embed config) hidden" and pos: "0 < b" "0 < s" "0 < n_targets"
    and d: "dense vars (n_embed config) n_targets hidden = Inr all_logits"
  shows "(ema_featurizer_fn env embedding_out = hidden \<longrightarrow>
            mean_teacher_u_loss env vars config n_targets all_logits embedding_out = Inr (Scalar 0)) \<and>
         (ema_featurizer_fn env = featurizer_fn env \<and> featurizer_fn env embedding_out = hidden
            \<and> length embedding_out = b \<and> shuffle_indicies env = [0..<length embedding_out]
            \<and> length (lam_mix env) = length embedding_out \<and> length (lam_ema env) = length embedding_out \<longrightarrow>
            ict_u_loss env vars config n_targets embedding_out = Inr (Scalar 0))"
proof -
  have tok: "list_all (rectangular n_targets) all_logits" using d by (rule dense_shape(2))
  have "size2 all_logits = size2 hidden" using dense_shape(1)[OF d] by (rule size2_same_lengths)
  then have sz: "0 < size2 all_logits" using size2_shape3[OF shp] pos by simp
  have c: "consistency_loss all_logits all_logits = Inr (Scalar 0)"
    using tok pos(3) sz by (rule consistency_loss_self)
  have len: "length all_logits = length hidden" using dense_shape(1)[OF d] by (metis length_map)
  show ?thesis
  proof (intro conjI impI)
    assume "ema_featurizer_fn env embedding_out = hidden"
    then show "mean_teacher_u_loss env vars config n_targets all_logits embedding_out = Inr (Scalar 0)"
      using d c by (simp add: mean_teacher_u_loss_def)
  next
    assume a: "ema_featurizer_fn env = featurizer_fn env \<and> featurizer_fn env embedding_out = hidden
            \<and> length embedding_out = b \<and> shuffle_indicies env = [0..<length embedding_out]
            \<and> length (lam_mix env) = length embedding_out \<and> length (lam_ema env) = length embedding_out"
    have e1: "ema_featurizer_fn env = featurizer_fn env" and e2: "featurizer_fn env embedding_out = hidden"
      and e3: "length embedding_out = b" and e4: "shuffle_indicies env = [0..<length embedding_out]"
      and e5: "length (lam_mix env) = length embedding_out" and e6: "length (lam_ema env) = length embedding_out"
      using a by blast+
    have ok: "draws_ok env (length embedding_out)"
      unfolding draws_ok_def using e4 e5 e6 by (simp add: list_all_iff)
    have mix: "interpolate (lam_mix env) embedding_out (gather embedding_out (shuffle_indicies env)) = embedding_out"
      unfolding e4 gather_identity using e5 by (rule interpolate_self)
    have sh: "length embedding_out = length all_logits"
      using e3 len shp by (simp add: has_shape3_def)
    have ema: "interpolate (lam_ema env) all_logits (gather all_logits (shuffle_indicies env)) = all_logits"
      unfolding e4 sh gather_identity using e6 sh by (intro interpolate_self) simp
    show "ict_u_loss env vars config n_targets embedding_out = Inr (Scalar 0)"
      using ok d by (simp add: ict_u_loss_def Let_def mix ema c e1 e2)
  qed
qed



lemma ssl_dense2: "dense ssl_vars (n_embed (ssl_config tsa)) 2 [[[x]], [[y]]] = Inr [[[x, 0]], [[y, 0]]]"
  by (simp add: dense_def ssl_vars_def ssl_config_def get_variable2_def get_variable1_def has_shape2_def
      rectangular_def affine_row_def transpose_rows_def dot_def)

theorem consistency_zero_when_identical_witness:
  "mean_teacher_u_loss plain_env ssl_vars (ssl_config None) 2 [[[1, 0]]] [[[1]]] = Inr (Scalar 0) \<and>
   ict_u_loss plain_env ssl_vars (ssl_config None) 2 [[[1]]] = Inr (Scalar 0)"
proof -
  have shp: "has_shape3 1 1 (n_embed (ssl_config None)) [[[1]]]"
    by (simp add: has_shape3_def has_shape2_def rectangular_def ssl_config_def)
  have p: "0 < (1::nat)" "0 < (2::nat)" by simp_all
  have e: "ema_featurizer_fn plain_env = featurizer_fn plain_env" "featurizer_fn plain_env [[[1]]] = [[[1]]]"
      "ema_featurizer_fn plain_env [[[1]]] = [[[1]]]"
      "shuffle_indicies plain_env = [0..<length [[[1::real]]]]"
      "length (lam_mix plain_env) = length [[[1::real]]]" "length (lam_ema plain_env) = length [[[1::real]]]"
    by (simp_all add: plain_env_def)
  show ?thesis
    using consistency_zero_when_identical[OF shp p(1) p(1) p(2) ssl_dense, of plain_env "[[[1]]]"] e
    by simp
qed

text \<open>
  The claim as stated fails for \<^verbatim>\<open>ict\<close>: with the same featurizer (squaring) for the live
  model and the teacher, two rows 0 and 2 swapped by the shuffle, and the mixing
  coefficient 1/2 in both draws, the consistency loss is 1/2.
\<close>

theorem ict_identical_models_counterexample:
  "ema_featurizer_fn apart_env = featurizer_fn apart_env \<and> lam_ema apart_env = lam_mix apart_env \<and>
   ict_u_loss apart_env ssl_vars (ssl_config None) 2 [[[0]], [[2]]] = Inr (Scalar (1 / 2))"
  by (simp add: ict_u_loss_def apart_env_def plain_env_def draws_ok_def gather_def interpolate_def ssl_dense2
      consistency_loss_def mse_token_def size2_def reduce_sum2_def Let_def)

subsection \<open>The coefficient of the unsupervised loss\<close>



lemma add_scalar_reduce_mean_zero: "add_scalar (reduce_mean t) (Scalar 0) = reduce_mean t"
  by (cases t) simp_all

lemma supervised_loss_device_bound:
  "supervised_loss env config False n use_crf train steps tr lg tg lens = Inr x \<Longrightarrow>
   supervised_loss env config True n use_crf train steps tr lg tg lens = Inr x"
  by (auto simp: supervised_loss_def Let_def split: prod.splits if_splits sum.splits)

lemma supervised_loss_reduced:
  "supervised_loss env config b n use_crf train steps tr lg tg lens = Inr (lg', lens', sl) \<Longrightarrow>
   add_scalar sl (Scalar 0) = sl"
  by (auto simp: supervised_loss_def Let_def add_scalar_reduce_mean_zero split: prod.splits if_splits sum.splits)

text \<open>
  C3 (as the code has it). When the dense layer, the class reweighting and the transition
  matrix are in place, targets are present and \<open>total_num_steps\<close> is positive:
  \<^verbatim>\<open>ict\<close> returns the supervised loss plus the consistency loss times
  \<open>max 0 (ssl_loss_coef * warmup_constant (global_step / total_steps) 0.25)\<close>, and at
  step 0 of a schedule that starts at 0 it returns the supervised loss alone;
  \<^verbatim>\<open>vat\<close> returns the supervised loss plus \<open>ssl_loss_coef * adv_loss\<close>, with no schedule.
  Nothing is stated of \<^verbatim>\<open>mean_teacher\<close>.
\<close>

theorem unsupervised_coefficient:
  assumes d: "dense vars (n_embed config) n_targets hidden = Inr all_logits"
    and l: "all_lengths = (case lengths of None \<Rightarrow> default_lengths hidden | Some l \<Rightarrow> l)"
    and w: "reweight_logits class_weights train (Some targets) n_targets (take (length targets) all_logits) = Inr lg"
    and t: "get_variable2 vars ''Transition_matrix'' n_targets n_targets = Inr tr"
    and steps: "0 < steps"
  shows "(ict_u_loss env vars config n_targets embedding_out = Inr u \<and>
          supervised_loss env config True n_targets use_crf train steps tr lg targets
             (take (length targets) all_lengths) = Inr (lg', lens', sl) \<longrightarrow>
            ict env vars hidden (Some targets) n_targets config train lengths use_crf embedding_out
                class_weights steps =
              Inr \<lparr>logits = lg',
                   losses = Some (add_scalar sl (scalar_product
                      (Scalar (max 0 (ssl_loss_coef config
                                * warmup_constant env (real (global_step env) / real steps) (1 / 4)))) u)),
                   predict_params = \<lparr>transition_matrix = Transition tr, sequence_length = lens'\<rparr>\<rparr> \<and>
            (global_step env = 0 \<and> warmup_constant env 0 (1 / 4) = 0 \<and> u = Scalar x \<longrightarrow>
               ict env vars hidden (Some targets) n_targets config train lengths use_crf embedding_out
                   class_weights steps =
                 Inr \<lparr>logits = lg', losses = Some sl,
                      predict_params = \<lparr>transition_matrix = Transition tr, sequence_length = lens'\<rparr>\<rparr>)) \<and>
         (supervised_loss env config False n_targets use_crf train steps tr lg targets
             (take (length targets) all_lengths) = Inr (lgv, lensv, slv) \<longrightarrow>
            vat env vars hidden (Some targets) n_targets config train lengths use_crf class_weights steps =
              Inr \<lparr>logits = lgv,
                   losses = Some (add_scalar slv (Scalar (ssl_loss_coef config * adv_loss env))),
                   predict_params = \<lparr>transition_matrix = Transition tr, sequence_length = lensv\<rparr>\<rparr>)"
proof (intro conjI impI)
  assume a: "ict_u_loss env vars config n_targets embedding_out = Inr u \<and>
          supervised_loss env config True n_targets use_crf train steps tr lg targets
             (take (length targets) all_lengths) = Inr (lg', lens', sl)"
  show full: "ict env vars hidden (Some targets) n_targets config train lengths use_crf embedding_out
                class_weights steps =
              Inr \<lparr>logits = lg',
                   losses = Some (add_scalar sl (scalar_product
                      (Scalar (max 0 (ssl_loss_coef config
                                * warmup_constant env (real (global_step env) / real steps) (1 / 4)))) u)),
                   predict_params = \<lparr>transition_matrix = Transition tr, sequence_length = lens'\<rparr>\<rparr>"
    using a d w t l steps by (simp add: ict_def Let_def ssl_loss_coefficient_def)
  assume b: "global_step env = 0 \<and> warmup_constant env 0 (1 / 4) = 0 \<and> u = Scalar x"
  have "add_scalar sl (Scalar 0) = sl" using a supervised_loss_reduced by blast
  then show "ict env vars hidden (Some targets) n_targets config train lengths use_crf embedding_out
                   class_weights steps =
                 Inr \<lparr>logits = lg', losses = Some sl,
                      predict_params = \<lparr>transition_matrix = Transition tr, sequence_length = lens'\<rparr>\<rparr>"
    using full b by simp
next
  assume "supervised_loss env config False n_targets use_crf train steps tr lg targets
             (take (length targets) all_lengths) = Inr (lgv, lensv, slv)"
  then show "vat env vars hidden (Some targets) n_targets config train lengths use_crf class_weights steps =
              Inr \<lparr>logits = lgv,
                   losses = Some (add_scalar slv (Scalar (ssl_loss_coef config * adv_loss env))),
                   predict_params = \<lparr>transition_matrix = Transition tr, sequence_length = lensv\<rparr>\<rparr>"
    using d w t l by (simp add: vat_def Let_def)
qed

lemma tsa_on: "tsa_configured (ssl_config (Some ''linear''))"
  by (simp add: tsa_configured_def ssl_config_def)

lemma supervised_filtered_example:
  "supervised_loss plain_env (ssl_config (Some ''linear'')) b 2 True True 10 [[0, 0], [0, 0]] [[[x, 0]]] [[0]] [Suc 0]
     = Inr ([], [], Scalar 0)"
  by (simp add: supervised_loss_def tsa_on plain_env_def labeler_loss_def crf_empty zero_if_no_targets_def)

lemma cross_entropy_example:
  "supervised_loss env (ssl_config None) b 2 False True 10 [[0, 0], [0, 0]] [[[0, 0]]] [[0]] [Suc 0]
     = Inr ([[[0, 0]]], [Suc 0], Scalar (ln 2))"
proof -
  have t: "\<not> tsa_configured (ssl_config None)" by (simp add: tsa_configured_def ssl_config_def)
  have w: "weighted_cross_entropy 2 [[0]] [[[0, 0]]] [Suc 0] = Inr (Scalar (ln 2))"
    by (simp add: weighted_cross_entropy_def labels_ok_def rectangular_def maxlen_of_def length_weights_def
        sequence_mask_def num_present_def div_no_nan_def row_weighted_loss_def token_cross_entropy_def
        logsumexp_def)
  show ?thesis by (simp add: supervised_loss_def t labeler_loss_def w)
qed

lemma ict_u_loss_apart:
  "global_step env = g \<Longrightarrow> env = apart_env\<lparr>global_step := g, adv_loss := a\<rparr> \<Longrightarrow>
   ict_u_loss env ssl_vars (ssl_config tsa) 2 [[[0]], [[2]]] = Inr (Scalar (1 / 2))"
  by (simp add: ict_u_loss_def apart_env_def plain_env_def draws_ok_def gather_def interpolate_def ssl_dense2
      consistency_loss_def mse_token_def size2_def reduce_sum2_def Let_def)

theorem unsupervised_coefficient_witness:
  "ict warm_env ssl_vars [[[0]], [[2]]] (Some [[0]]) 2 (ssl_config None) True None False [[[0]], [[2]]] None 10 =
     Inr \<lparr>logits = [[[0, 0]]], losses = Some (Scalar (ln 2 + 1 / 5)),
          predict_params = \<lparr>transition_matrix = Transition [[0, 0], [0, 0]], sequence_length = [Suc 0]\<rparr>\<rparr> \<and>
   ict (warm_env\<lparr>global_step := 0\<rparr>) ssl_vars [[[0]], [[2]]] (Some [[0]]) 2 (ssl_config None) True None False
       [[[0]], [[2]]] None 10 =
     Inr \<lparr>logits = [[[0, 0]]], losses = Some (Scalar (ln 2)),
          predict_params = \<lparr>transition_matrix = Transition [[0, 0], [0, 0]], sequence_length = [Suc 0]\<rparr>\<rparr> \<and>
   vat warm_env ssl_vars [[[0]], [[2]]] (Some [[0]]) 2 (ssl_config None) True None False None 10 =
     Inr \<lparr>logits = [[[0, 0]]], losses = Some (Scalar (ln 2 + 3)),
          predict_params = \<lparr>transition_matrix = Transition [[0, 0], [0, 0]], sequence_length = [Suc 0]\<rparr>\<rparr>"
proof -
  have d: "dense ssl_vars (n_embed (ssl_config None)) 2 [[[0]], [[2]]] = Inr [[[0, 0]], [[2, 0]]]"
    by (rule ssl_dense2)
  have l: "[Suc 0, Suc 0] = (case None of None \<Rightarrow> default_lengths [[[0]], [[2]]] | Some l \<Rightarrow> l)"
    by (simp add: default_lengths_def)
  have w: "reweight_logits None True (Some [[0]]) 2 (take (length [[0::nat]]) [[[0, 0]], [[2, 0]]])
      = Inr [[[0, 0]]]"
    by (simp add: reweight_logits_def)
  have steps: "0 < (10::nat)" by simp
  have s: "supervised_loss env (ssl_config None) b 2 False True 10 [[0, 0], [0, 0]] [[[0, 0]]] [[0]]
      (take (length [[0::nat]]) [Suc 0, Suc 0]) = Inr ([[[0, 0]]], [Suc 0], Scalar (ln 2))" for env b
    using cross_entropy_example[of env b] by simp
  have u1: "ict_u_loss warm_env ssl_vars (ssl_config None) 2 [[[0]], [[2]]] = Inr (Scalar (1 / 2))"
    by (rule ict_u_loss_apart[of _ 1 3]) (simp_all add: warm_env_def)
  have u0: "ict_u_loss (warm_env\<lparr>global_step := 0\<rparr>) ssl_vars (ssl_config None) 2 [[[0]], [[2]]]
      = Inr (Scalar (1 / 2))"
    by (rule ict_u_loss_apart[of _ 0 3]) (simp_all add: warm_env_def)
  have g: "global_step warm_env = 1" "global_step (warm_env\<lparr>global_step := 0\<rparr>) = 0"
      "adv_loss warm_env = 3"
      "warmup_constant warm_env = (\<lambda>x w. if x \<le> w then x / w else 1)"
      "warmup_constant (warm_env\<lparr>global_step := 0\<rparr>) = (\<lambda>x w. if x \<le> w then x / w else 1)"
    by (simp_all add: warm_env_def apart_env_def plain_env_def)
  note th = unsupervised_coefficient[OF d l w ssl_transition steps]
  show ?thesis
    using th[where env=warm_env and embedding_out="[[[0]], [[2]]]" and u="Scalar (1 / 2)"
        and lg'="[[[0, 0]]]" and lens'="[Suc 0]" and sl="Scalar (ln 2)"
        and lgv="[[[0, 0]]]" and lensv="[Suc 0]" and slv="Scalar (ln 2)" and x="1 / 2"]
      th[where env="warm_env\<lparr>global_step := 0\<rparr>" and embedding_out="[[[0]], [[2]]]" and u="Scalar (1 / 2)"
        and lg'="[[[0, 0]]]" and lens'="[Suc 0]" and sl="Scalar (ln 2)"
        and lgv="[[[0, 0]]]" and lensv="[Suc 0]" and slv="Scalar (ln 2)" and x="1 / 2"]
      s u1 u0 g
    by (simp add: ssl_coef_one)
qed

text \<open>
  The claim as stated fails at step 0 of a schedule whose coefficient is 0 there: with
  every labeled row filtered, \<^verbatim>\<open>vat\<close> returns 1, which is \<open>ssl_loss_coef * adv_loss\<close>, and
  0 when the adversarial loss is 0; \<^verbatim>\<open>mean_teacher\<close> returns its consistency loss 2.
\<close>

theorem unsupervised_coefficient_counterexample:
  "real (global_step plain_env) / real 10 = 0 \<and>
   max 0 (ssl_loss_coef (ssl_config (Some ''linear'')) * warmup_constant plain_env 0 (1 / 4)) = 0 \<and>
   vat plain_env ssl_vars [[[1]]] (Some [[0]]) 2 (ssl_config (Some ''linear'')) True None True None 10 =
     Inr \<lparr>logits = [], losses = Some (Scalar 1),
          predict_params = \<lparr>transition_matrix = Transition [[0, 0], [0, 0]], sequence_length = []\<rparr>\<rparr> \<and>
   vat (plain_env\<lparr>adv_loss := 0\<rparr>) ssl_vars [[[1]]] (Some [[0]]) 2 (ssl_config (Some ''linear'')) True None True None 10 =
     Inr \<lparr>logits = [], losses = Some (Scalar 0),
          predict_params = \<lparr>transition_matrix = Transition [[0, 0], [0, 0]], sequence_length = []\<rparr>\<rparr> \<and>
   mean_teacher plain_env ssl_vars [[[1]]] (Some [[0]]) 2 (ssl_config (Some ''linear'')) True None True [[[3]]] None 10 =
     Inr \<lparr>logits = [], losses = Some (Scalar 2),
          predict_params = \<lparr>transition_matrix = Transition [[0, 0], [0, 0]], sequence_length = []\<rparr>\<rparr>"
proof -
  have mu: "mean_teacher_u_loss plain_env ssl_vars (ssl_config (Some ''linear'')) 2 [[[1, 0]]] [[[3]]] = Inr (Scalar 2)"
    by (simp add: mean_teacher_u_loss_def plain_env_def ssl_dense consistency_loss_def mse_token_def size2_def
        reduce_sum2_def)
  have m: "mean_teacher plain_env ssl_vars [[[1]]] (Some [[0]]) 2 (ssl_config (Some ''linear'')) True None True [[[3]]] None 10 =
     Inr \<lparr>logits = [], losses = Some (Scalar 2),
          predict_params = \<lparr>transition_matrix = Transition [[0, 0], [0, 0]], sequence_length = []\<rparr>\<rparr>"
    using supervised_filtered_example[of False 1]
    by (simp add: mean_teacher_def ssl_dense ssl_transition reweight_logits_def default_lengths_def mu Let_def
        ssl_coef_one)
  have s: "supervised_loss (plain_env\<lparr>adv_loss := a\<rparr>) (ssl_config (Some ''linear'')) False 2 True True 10
      [[0, 0], [0, 0]] [[[1, 0]]] [[0]] [Suc 0] = Inr ([], [], Scalar 0)" for a
    by (simp add: supervised_loss_def tsa_on plain_env_def labeler_loss_def crf_empty zero_if_no_targets_def)
  have p: "plain_env = plain_env\<lparr>adv_loss := 1\<rparr>" by (simp add: plain_env_def)
  have c: "ssl_loss_coef (ssl_config (Some ''linear'')) = 1" by (simp add: ssl_config_def)
  have v: "vat (plain_env\<lparr>adv_loss := a\<rparr>) ssl_vars [[[1]]] (Some [[0]]) 2 (ssl_config (Some ''linear'')) True None True None 10 =
     Inr \<lparr>logits = [], losses = Some (Scalar a),
          predict_params = \<lparr>transition_matrix = Transition [[0, 0], [0, 0]], sequence_length = []\<rparr>\<rparr>" for a
    by (simp add: vat_def ssl_dense ssl_transition reweight_logits_def default_lengths_def s Let_def c)
  have z: "real (global_step plain_env) / real 10 = 0"
      "max 0 (ssl_loss_coef (ssl_config (Some ''linear'')) * warmup_constant plain_env 0 (1 / 4)) = 0"
    by (simp_all add: plain_env_def c)
  show ?thesis using v[of 1] v[of 0] p z m by simp
qed

subsection \<open>A batch whose labeled rows are all filtered\<close>


lemma get_variable2_shape: "get_variable2 vars name r c = Inr m \<Longrightarrow> has_shape2 r c m"
  by (auto simp: get_variable2_def split: option.splits if_splits)

lemma labeler_loss_no_rows:
  assumes "has_shape2 n n tr" "0 < n"
  shows "\<exists>loss. labeler_loss n use_crf [] [] [] tr = Inr loss"
  using assms
  by (simp add: labeler_loss_def crf_log_likelihood_def weighted_cross_entropy_def has_shape2_def
      labels_ok_def maxlen_of_def rectangular_def Let_def)

lemma supervised_loss_all_filtered:
  assumes tsa: "tsa_configured config"
    and f: "tsa_filter env (tsa_method config) lg tg lens use_crf tr steps = ([], [], [])"
    and tr: "has_shape2 n n tr" and n: "0 < n"
    and dev: "train \<or> \<not> use_crf \<or> device_bound"
  shows "supervised_loss env config device_bound n use_crf train steps tr lg tg lens = Inr ([], [], Scalar 0)"
proof -
  obtain loss where "labeler_loss n use_crf [] [] [] tr = Inr loss"
    using labeler_loss_no_rows[OF tr n] by blast
  then show ?thesis using tsa f dev
    by (auto simp: supervised_loss_def zero_if_no_targets_def)
qed

text \<open>
  C4 (as the code has it). When a TSA method is configured and the filter removes every
  labeled row, the supervised term that \<^verbatim>\<open>vat\<close>, \<^verbatim>\<open>ict\<close> and \<^verbatim>\<open>mean_teacher\<close> compute is
  exactly 0, with no division by the number of rows, and the returned loss is the
  unsupervised term alone: \<open>ssl_loss_coef * adv_loss\<close> for \<^verbatim>\<open>vat\<close>; for \<^verbatim>\<open>ict\<close>, when
  \<open>total_num_steps\<close> is positive, the warmed-up coefficient times the consistency loss;
  for \<^verbatim>\<open>mean_teacher\<close> a finite scalar. (\<^verbatim>\<open>vat\<close> and \<^verbatim>\<open>mean_teacher\<close> are taken where they
  reach the loss: training, or without the CRF.)
\<close>

theorem tsa_all_filtered_loss:
  assumes d: "dense vars (n_embed config) n_targets hidden = Inr all_logits"
    and l: "all_lengths = (case lengths of None \<Rightarrow> default_lengths hidden | Some l \<Rightarrow> l)"
    and w: "reweight_logits class_weights train (Some targets) n_targets (take (length targets) all_logits) = Inr lg"
    and t: "get_variable2 vars ''Transition_matrix'' n_targets n_targets = Inr tr"
    and n: "0 < n_targets"
    and tsa: "tsa_configured config"
    and f: "tsa_filter env (tsa_method config) lg targets (take (length targets) all_lengths) use_crf tr steps
              = ([], [], [])"
  shows "(train \<or> \<not> use_crf \<or> device_bound \<longrightarrow>
            supervised_loss env config device_bound n_targets use_crf train steps tr lg targets
              (take (length targets) all_lengths) = Inr ([], [], Scalar 0)) \<and>
         (train \<or> \<not> use_crf \<longrightarrow>
            vat env vars hidden (Some targets) n_targets config train lengths use_crf class_weights steps =
              Inr \<lparr>logits = [], losses = Some (Scalar (ssl_loss_coef config * adv_loss env)),
                   predict_params = \<lparr>transition_matrix = Transition tr, sequence_length = []\<rparr>\<rparr>) \<and>
         (0 < steps \<and> ict_u_loss env vars config n_targets embedding_out = Inr (Scalar u) \<longrightarrow>
            ict env vars hidden (Some targets) n_targets config train lengths use_crf embedding_out
                class_weights steps =
              Inr \<lparr>logits = [],
                   losses = Some (Scalar (max 0 (ssl_loss_coef config
                      * warmup_constant env (real (global_step env) / real steps) (1 / 4)) * u)),
                   predict_params = \<lparr>transition_matrix = Transition tr, sequence_length = []\<rparr>\<rparr>) \<and>
         ((train \<or> \<not> use_crf) \<and>
          mean_teacher_u_loss env vars config n_targets all_logits embedding_out = Inr (Scalar u') \<longrightarrow>
            (\<exists>x. mean_teacher env vars hidden (Some targets) n_targets config train lengths use_crf
                    embedding_out class_weights steps =
                  Inr \<lparr>logits = [], losses = Some (Scalar x),
                       predict_params = \<lparr>transition_matrix = Transition tr, sequence_length = []\<rparr>\<rparr>))"
proof -
  have shp: "has_shape2 n_targets n_targets tr" using t by (rule get_variable2_shape)
  have s: "train \<or> \<not> use_crf \<or> b \<Longrightarrow>
      supervised_loss env config b n_targets use_crf train steps tr lg targets
        (take (length targets) all_lengths) = Inr ([], [], Scalar 0)" for b
    using supervised_loss_all_filtered[OF tsa f shp n] by blast
  show ?thesis
  proof (intro conjI impI)
    assume "train \<or> \<not> use_crf \<or> device_bound"
    then show "supervised_loss env config device_bound n_targets use_crf train steps tr lg targets
              (take (length targets) all_lengths) = Inr ([], [], Scalar 0)"
      by (rule s)
  next
    assume "train \<or> \<not> use_crf"
    then show "vat env vars hidden (Some targets) n_targets config train lengths use_crf class_weights steps =
              Inr \<lparr>logits = [], losses = Some (Scalar (ssl_loss_coef config * adv_loss env)),
                   predict_params = \<lparr>transition_matrix = Transition tr, sequence_length = []\<rparr>\<rparr>"
      using d w t l s[of False] by (simp add: vat_def Let_def)
  next
    assume "0 < steps \<and> ict_u_loss env vars config n_targets embedding_out = Inr (Scalar u)"
    then show "ict env vars hidden (Some targets) n_targets config train lengths use_crf embedding_out
                class_weights steps =
              Inr \<lparr>logits = [],
                   losses = Some (Scalar (max 0 (ssl_loss_coef config
                      * warmup_constant env (real (global_step env) / real steps) (1 / 4)) * u)),
                   predict_params = \<lparr>transition_matrix = Transition tr, sequence_length = []\<rparr>\<rparr>"
      using d w t l s[of True] by (simp add: ict_def Let_def ssl_loss_coefficient_def)
  next
    assume "(train \<or> \<not> use_crf) \<and>
          mean_teacher_u_loss env vars config n_targets all_logits embedding_out = Inr (Scalar u')"
    then show "\<exists>x. mean_teacher env vars hidden (Some targets) n_targets config train lengths use_crf
                    embedding_out class_weights steps =
                  Inr \<lparr>logits = [], losses = Some (Scalar x),
                       predict_params = \<lparr>transition_matrix = Transition tr, sequence_length = []\<rparr>\<rparr>"
      using d w t l s[of False] by (simp add: mean_teacher_def Let_def)
  qed
qed

lemma mean_teacher_u_loss_apart:
  "env = apart_env\<lparr>global_step := g, adv_loss := a\<rparr> \<Longrightarrow>
   mean_teacher_u_loss env ssl_vars (ssl_config tsa) 2 [[[0, 0]], [[2, 0]]] [[[0]], [[2]]] = Inr (Scalar 1)"
  by (simp add: mean_teacher_u_loss_def apart_env_def plain_env_def ssl_dense2 consistency_loss_def
      mse_token_def size2_def reduce_sum2_def)

theorem tsa_all_filtered_loss_witness:
  "supervised_loss warm_env (ssl_config (Some ''linear'')) False 2 False True 10 [[0, 0], [0, 0]] [[[0, 0]]]
       [[0]] [Suc 0] = Inr ([], [], Scalar 0) \<and>
   vat warm_env ssl_vars [[[0]], [[2]]] (Some [[0]]) 2 (ssl_config (Some ''linear'')) True None False None 10 =
     Inr \<lparr>logits = [], losses = Some (Scalar 3),
          predict_params = \<lparr>transition_matrix = Transition [[0, 0], [0, 0]], sequence_length = []\<rparr>\<rparr> \<and>
   ict warm_env ssl_vars [[[0]], [[2]]] (Some [[0]]) 2 (ssl_config (Some ''linear'')) True None False
       [[[0]], [[2]]] None 10 =
     Inr \<lparr>logits = [], losses = Some (Scalar (1 / 5)),
          predict_params = \<lparr>transition_matrix = Transition [[0, 0], [0, 0]], sequence_length = []\<rparr>\<rparr> \<and>
   (\<exists>x. mean_teacher warm_env ssl_vars [[[0]], [[2]]] (Some [[0]]) 2 (ssl_config (Some ''linear'')) True None
          False [[[0]], [[2]]] None 10 =
        Inr \<lparr>logits = [], losses = Some (Scalar x),
             predict_params = \<lparr>transition_matrix = Transition [[0, 0], [0, 0]], sequence_length = []\<rparr>\<rparr>)"
proof -
  have d: "dense ssl_vars (n_embed (ssl_config (Some ''linear''))) 2 [[[0]], [[2]]] = Inr [[[0, 0]], [[2, 0]]]"
    by (rule ssl_dense2)
  have l: "[Suc 0, Suc 0] = (case None of None \<Rightarrow> default_lengths [[[0]], [[2]]] | Some l \<Rightarrow> l)"
    by (simp add: default_lengths_def)
  have w: "reweight_logits None True (Some [[0]]) 2 (take (length [[0::nat]]) [[[0, 0]], [[2, 0]]])
      = Inr [[[0, 0]]]"
    by (simp add: reweight_logits_def)
  have n: "0 < (2::nat)" by simp
  have f: "tsa_filter warm_env (tsa_method (ssl_config (Some ''linear''))) [[[0, 0]]] [[0]]
      (take (length [[0::nat]]) [Suc 0, Suc 0]) False [[0, 0], [0, 0]] 10 = ([], [], [])"
    by (simp add: warm_env_def apart_env_def plain_env_def)
  have mu: "mean_teacher_u_loss warm_env ssl_vars (ssl_config (Some ''linear'')) 2 [[[0, 0]], [[2, 0]]]
      [[[0]], [[2]]] = Inr (Scalar 1)"
    by (rule mean_teacher_u_loss_apart[where g=1 and a=3]) (simp add: warm_env_def)
  have iu: "ict_u_loss warm_env ssl_vars (ssl_config (Some ''linear'')) 2 [[[0]], [[2]]] = Inr (Scalar (1 / 2))"
    by (rule ict_u_loss_apart[of _ 1 3]) (simp_all add: warm_env_def)
  have g: "global_step warm_env = 1" "adv_loss warm_env = 3"
      "warmup_constant warm_env = (\<lambda>x w. if x \<le> w then x / w else 1)"
    by (simp_all add: warm_env_def apart_env_def plain_env_def)
  note th = tsa_all_filtered_loss[OF d l w ssl_transition n tsa_on f]
  show ?thesis
    using th[where embedding_out="[[[0]], [[2]]]" and u="1 / 2" and u'=1 and device_bound=False] mu iu g
    by (simp add: ssl_coef_one)
qed

text \<open>
  The claim as stated asks for a returned loss of zero that is never \<open>NaN\<close>. With every
  row filtered and an adversarial loss of 3, \<^verbatim>\<open>vat\<close> returns 3; and with
  \<open>total_num_steps = 0\<close> the training fraction of \<^verbatim>\<open>ict\<close> is \<open>0 / 0\<close> and its loss is no
  number.
\<close>

theorem tsa_all_filtered_loss_counterexample:
  "tsa_filter busy_env (Some ''linear'') [[[1, 0]]] [[0]] [Suc 0] False [[0, 0], [0, 0]] 10 = ([], [], []) \<and>
   vat busy_env ssl_vars [[[1]]] (Some [[0]]) 2 (ssl_config (Some ''linear'')) True None False None 10 =
     Inr \<lparr>logits = [], losses = Some (Scalar 3),
          predict_params = \<lparr>transition_matrix = Transition [[0, 0], [0, 0]], sequence_length = []\<rparr>\<rparr> \<and>
   tsa_filter plain_env (Some ''linear'') [[[1, 0]]] [[0]] [Suc 0] False [[0, 0], [0, 0]] 0 = ([], [], []) \<and>
   ict plain_env ssl_vars [[[1]]] (Some [[0]]) 2 (ssl_config (Some ''linear'')) True None False [[[3]]] None 0 =
     Inr \<lparr>logits = [], losses = Some NotANumber,
          predict_params = \<lparr>transition_matrix = Transition [[0, 0], [0, 0]], sequence_length = []\<rparr>\<rparr>"
proof -
  have s: "supervised_loss env (ssl_config (Some ''linear'')) b 2 False True steps
      [[0, 0], [0, 0]] [[[1, 0]]] [[0]] [Suc 0] = Inr ([], [], Scalar 0)"
    if "tsa_filter env = tsa_filter plain_env" for env b steps
    using that
    by (simp add: supervised_loss_def tsa_on plain_env_def labeler_loss_def
        weighted_cross_entropy_def labels_ok_def maxlen_of_def rectangular_def num_present_def div_no_nan_def
        zero_if_no_targets_def)
  have sb: "supervised_loss busy_env (ssl_config (Some ''linear'')) False 2 False True 10
      [[0, 0], [0, 0]] [[[1, 0]]] [[0]] [Suc 0] = Inr ([], [], Scalar 0)"
    by (rule s) (simp add: busy_env_def)
  have sp: "supervised_loss plain_env (ssl_config (Some ''linear'')) True 2 False True 0
      [[0, 0], [0, 0]] [[[1, 0]]] [[0]] [Suc 0] = Inr ([], [], Scalar 0)"
    by (rule s) simp
  have iu: "ict_u_loss plain_env ssl_vars (ssl_config (Some ''linear'')) 2 [[[3]]] = Inr (Scalar 0)"
    by (simp add: ict_u_loss_def plain_env_def draws_ok_def gather_def interpolate_def ssl_dense
        consistency_loss_def mse_token_def size2_def reduce_sum2_def Let_def)
  have v: "vat busy_env ssl_vars [[[1]]] (Some [[0]]) 2 (ssl_config (Some ''linear'')) True None False None 10 =
     Inr \<lparr>logits = [], losses = Some (Scalar 3),
          predict_params = \<lparr>transition_matrix = Transition [[0, 0], [0, 0]], sequence_length = []\<rparr>\<rparr>"
    by (simp add: vat_def ssl_dense ssl_transition reweight_logits_def default_lengths_def sb Let_def ssl_coef_one)
      (simp add: busy_env_def plain_env_def)
  have i: "ict plain_env ssl_vars [[[1]]] (Some [[0]]) 2 (ssl_config (Some ''linear'')) True None False [[[3]]] None 0 =
     Inr \<lparr>logits = [], losses = Some NotANumber,
          predict_params = \<lparr>transition_matrix = Transition [[0, 0], [0, 0]], sequence_length = []\<rparr>\<rparr>"
    by (simp add: ict_def ssl_dense ssl_transition reweight_logits_def default_lengths_def sp iu Let_def
        ssl_loss_coefficient_def)
  have f: "tsa_filter busy_env (Some ''linear'') [[[1, 0]]] [[0]] [Suc 0] False [[0, 0], [0, 0]] 10 = ([], [], [])"
      "tsa_filter plain_env (Some ''linear'') [[[1, 0]]] [[0]] [Suc 0] False [[0, 0], [0, 0]] 0 = ([], [], [])"
    by (simp_all add: busy_env_def plain_env_def)
  show ?thesis using v i f by simp
qed

subsection \<open>Padding invariance of the cross-entropy\<close>














subsection \<open>The labeler end to end\<close>

lemma dense_result_shape:
  assumes "dense vars nx units x = Inr y" "has_shape3 b s nx x"
  shows "has_shape3 b s units y"
proof -
  have l: "map length y = map length x" and r: "list_all (rectangular units) y"
    using dense_shape[OF assms(1)] by simp_all
  have lb: "length y = b" using l assms(2) by (metis has_shape3_def length_map)
  have "\<forall>i<length y. length (y ! i) = s"
  proof (intro allI impI)
    fix i assume i: "i < length y"
    then have "length (y ! i) = length (x ! i)" using l by (metis length_map nth_map)
    moreover have "length (x ! i) = s"
      using assms(2) i lb by (simp add: has_shape3_def has_shape2_def list_all_length)
    ultimately show "length (y ! i) = s" by simp
  qed
  then show ?thesis using lb r
    by (simp add: has_shape3_def has_shape2_def list_all_length)
qed

lemma dense_total:
  assumes "get_variable2 vars ''dense/kernel'' nx units = Inr w"
    and "get_variable1 vars ''dense/bias'' units = Inr bias"
    and "has_shape3 b s nx x"
  shows "\<exists>y. dense vars nx units x = Inr y"
  using assms by (simp add: dense_def has_shape3_def has_shape2_def list_all_iff)

lemma crf_log_likelihood_total:
  assumes lg: "has_shape3 b s n lg" and t: "has_shape2 b s t"
    and lab: "list_all (list_all (\<lambda>tag. tag < n)) t"
    and ls: "length ls = b" "list_all (\<lambda>len. len \<le> s) ls"
    and tr: "has_shape2 n n tr" and pos: "0 < s" "0 < n"
  shows "\<exists>ll. crf_log_likelihood lg t ls tr = Inr ll"
proof -
  have rows: "list_all (\<lambda>(x, tags, len). crf_row_ok (length tr) x tags len) (zip lg (zip t ls))"
    unfolding list_all_length
  proof (intro allI impI)
    fix i assume "i < length (zip lg (zip t ls))"
    then have i: "i < b" using lg t ls by (simp add: has_shape3_def has_shape2_def)
    have x: "has_shape2 s n (lg ! i)" using lg i by (simp add: has_shape3_def list_all_length)
    have y: "length (t ! i) = s" "list_all (\<lambda>tag. tag < n) (t ! i)"
      using t lab i by (simp_all add: has_shape2_def rectangular_def list_all_length)
    have l: "ls ! i \<le> s" using ls i by (simp add: list_all_length)
    have "crf_row_ok (length tr) (lg ! i) (t ! i) (ls ! i)"
      using x y l pos tr by (auto simp: crf_row_ok_def has_shape2_def)
    then show "case zip lg (zip t ls) ! i of (x, tags, len) \<Rightarrow> crf_row_ok (length tr) x tags len"
      using i lg t ls by (simp add: has_shape3_def has_shape2_def)
  qed
  show ?thesis
    using rows lg t ls tr pos
    by (simp add: crf_log_likelihood_def Let_def has_shape3_def has_shape2_def)
qed

lemma sequence_labeler_crf_result:
  assumes h: "has_shape3 b s (n_embed config) hidden"
    and a: "is_bidirectional config \<or> has_shape3 b s (n_embed config) (seq_label_attn env hidden)"
    and k: "get_variable2 vars ''dense/kernel'' (n_embed config) n = Inr w"
    and bi: "get_variable1 vars ''dense/bias'' n = Inr bias"
    and tm: "get_variable2 vars ''Transition_matrix'' n n = Inr tr"
    and t: "has_shape2 b s t" and lab: "list_all (list_all (\<lambda>tag. tag < n)) t"
    and ls: "length ls = b" "list_all (\<lambda>len. len \<le> s) ls"
    and pos: "0 < s" "0 < n"
  shows "\<exists>lg v. sequence_labeler env vars hidden (Some (Labels t)) n config pad_id False train (Some ls) True None
            = Inr \<lparr>logits = Logits lg, losses = Some (Vector v),
                   predict_params = \<lparr>transition_matrix = Transition tr, sequence_length = ls\<rparr>\<rparr>
          \<and> has_shape3 b s n lg \<and> length v = b \<and> list_all (\<lambda>x. 0 \<le> x) v \<and> has_shape2 n n tr"
proof -
  let ?n = "if is_bidirectional config then hidden else seq_label_attn env hidden"
  have ns: "has_shape3 b s (n_embed config) ?n" using h a by auto
  obtain lg where d: "dense vars (n_embed config) n ?n = Inr lg"
    using dense_total[OF k bi ns] by blast
  have lgs: "has_shape3 b s n lg" using d ns by (rule dense_result_shape)
  have same: "map length lg = map length hidden"
  proof (rule nth_equalityI)
    show "length (map length lg) = length (map length hidden)"
      using lgs h by (simp add: has_shape3_def)
  next
    fix i assume "i < length (map length lg)"
    then show "map length lg ! i = map length hidden ! i"
      using lgs h by (simp add: has_shape3_def has_shape2_def list_all_length)
  qed
  have int: "seq_lab_internal env vars config n hidden = Inr lg"
    using d same by (simp add: seq_lab_internal_def Let_def)
  have trs: "has_shape2 n n tr" using tm by (rule get_variable2_shape)
  obtain ll where c: "crf_log_likelihood lg t ls tr = Inr ll"
    using crf_log_likelihood_total[OF lgs t lab ls trs pos] by blast
  have np: "list_all (\<lambda>l. l \<le> 0) ll" and ln: "length ll = length lg"
    using crf_log_likelihood_nonpos[OF c] by simp_all
  have v: "list_all (\<lambda>x. 0 \<le> x) (map uminus ll)" using np by (simp add: list_all_iff)
  have "sequence_labeler env vars hidden (Some (Labels t)) n config pad_id False train (Some ls) True None
      = Inr \<lparr>logits = Logits lg, losses = Some (Vector (map uminus ll)),
             predict_params = \<lparr>transition_matrix = Transition tr, sequence_length = ls\<rparr>\<rparr>"
    using int tm c
    by (simp add: sequence_labeler_def recompute_grad_def single_targets_def reweight_logits_def
        labeler_loss_def)
  then show ?thesis using lgs v ln trs by (auto simp: has_shape3_def)
qed


text \<open>
  C2 (as the code has it). For hidden states of shape (2, 5, 8), targets of shape (2, 5)
  with values in {0, 1, 2}, \<open>n_targets = 3\<close>, the CRF and lengths [5, 3], with the
  variables of the dense layer and the transition matrix in place (and, for a
  unidirectional base model, an attention block that keeps the shape), the labeler
  returns logits of shape (2, 5, 3), a loss vector with one non-negative entry per
  sequence, and the (3, 3) transition matrix among its prediction parameters.
\<close>

theorem labeler_end_to_end:
  assumes h: "has_shape3 2 5 8 hidden" and e: "n_embed config = 8"
    and a: "is_bidirectional config \<or> has_shape3 2 5 8 (seq_label_attn env hidden)"
    and k: "get_variable2 vars ''dense/kernel'' 8 3 = Inr w"
    and bi: "get_variable1 vars ''dense/bias'' 3 = Inr bias"
    and tm: "get_variable2 vars ''Transition_matrix'' 3 3 = Inr tr"
    and t: "has_shape2 2 5 t" and lab: "list_all (list_all (\<lambda>tag. tag < 3)) t"
  shows "\<exists>lg v. sequence_labeler env vars hidden (Some (Labels t)) 3 config pad_id False train (Some [5, 3]) True None
            = Inr \<lparr>logits = Logits lg, losses = Some (Vector v),
                   predict_params = \<lparr>transition_matrix = Transition tr, sequence_length = [5, 3]\<rparr>\<rparr>
          \<and> has_shape3 2 5 3 lg \<and> length v = 2 \<and> list_all (\<lambda>x. 0 \<le> x) v \<and> has_shape2 3 3 tr"
proof -
  have ls: "length [5, 3 :: nat] = 2" "list_all (\<lambda>len. len \<le> 5) [5, 3 :: nat]" by simp_all
  have pos: "0 < (5::nat)" "0 < (3::nat)" by simp_all
  show ?thesis
    using sequence_labeler_crf_result[of 2 5 config hidden env vars 3 w bias tr t "[5, 3]" pad_id train]
      h e a k bi tm t lab ls pos
    by simp
qed

lemma labeler_fixture:
  "has_shape3 2 5 8 labeler_hidden" "n_embed labeler_config = 8" "is_bidirectional labeler_config"
  "get_variable2 labeler_vars ''dense/kernel'' 8 3 = Inr (replicate 8 [0, 0, 0])"
  "get_variable1 labeler_vars ''dense/bias'' 3 = Inr [0, 0, 0]"
  "get_variable2 labeler_vars ''Transition_matrix'' 3 3 = Inr (replicate 3 [0, 0, 0])"
  "has_shape2 2 5 labeler_targets" "list_all (list_all (\<lambda>tag. tag < 3)) labeler_targets"
  by (simp_all add: labeler_hidden_def labeler_config_def labeler_vars_def labeler_targets_def
      has_shape3_def has_shape2_def rectangular_def get_variable2_def get_variable1_def list_all_iff)

theorem labeler_end_to_end_witness:
  "\<exists>lg v. sequence_labeler plain_env labeler_vars labeler_hidden (Some (Labels labeler_targets)) 3
            labeler_config 0 False False (Some [5, 3]) True None
            = Inr \<lparr>logits = Logits lg, losses = Some (Vector v),
                   predict_params = \<lparr>transition_matrix = Transition (replicate 3 [0, 0, 0]),
                                      sequence_length = [5, 3]\<rparr>\<rparr>
          \<and> has_shape3 2 5 3 lg \<and> length v = 2 \<and> list_all (\<lambda>x. 0 \<le> x) v
          \<and> has_shape2 3 3 (replicate 3 [0, 0, 0 :: real])"
  using labeler_end_to_end[OF labeler_fixture(1,2) disjI1[OF labeler_fixture(3)] labeler_fixture(4-8)]
  by blast

text \<open>
  The claim as stated asks for a scalar loss. On an input of the claimed shapes the loss
  has shape [2]: \<^verbatim>\<open>crf_log_likelihood\<close> returns one log-likelihood per sequence and the
  labeler negates it without reducing.
\<close>

theorem labeler_loss_shape_counterexample:
  "(case sequence_labeler plain_env labeler_vars labeler_hidden (Some (Labels labeler_targets)) 3
            labeler_config 0 False False (Some [5, 3]) True None of
      Inl e \<Rightarrow> None
    | Inr r \<Rightarrow> map_option shape (losses r)) = Some [2]"
proof -
  have ls: "length [5, 3 :: nat] = 2" "list_all (\<lambda>len. len \<le> 5) [5, 3 :: nat]" by simp_all
  have pos: "0 < (5::nat)" "0 < (3::nat)" by simp_all
  have h: "has_shape3 2 5 (n_embed labeler_config) labeler_hidden"
    using labeler_fixture(1,2) by simp
  have k: "get_variable2 labeler_vars ''dense/kernel'' (n_embed labeler_config) 3 = Inr (replicate 8 [0, 0, 0])"
    using labeler_fixture(2,4) by simp
  obtain lg v where
    "sequence_labeler plain_env labeler_vars labeler_hidden (Some (Labels labeler_targets)) 3
            labeler_config 0 False False (Some [5, 3]) True None
       = Inr \<lparr>logits = Logits lg, losses = Some (Vector v),
              predict_params = \<lparr>transition_matrix = Transition (replicate 3 [0, 0, 0]),
                                 sequence_length = [5, 3]\<rparr>\<rparr>"
    and "length v = 2"
    using sequence_labeler_crf_result[OF h disjI1[OF labeler_fixture(3)] k labeler_fixture(5,6,7,8) ls pos,
        of plain_env 0 False]
    by blast
  then show ?thesis by simp
qed

subsection \<open>The threshold of pseudo-labelling\<close>


lemma boolean_mask_none: "list_all (\<lambda>k. \<not> k) keep \<Longrightarrow> boolean_mask x keep = []"
proof -
  assume "list_all (\<lambda>k. \<not> k) keep"
  then have "filter snd (zip x keep) = []"
    by (auto simp: filter_empty_conv list_all_iff dest: set_zip_rightD)
  then show ?thesis by (simp add: boolean_mask_def)
qed

lemma boolean_mask_all: "list_all (\<lambda>k. k) keep \<Longrightarrow> length keep = length x \<Longrightarrow> boolean_mask x keep = x"
proof -
  assume a: "list_all (\<lambda>k. k) keep" and l: "length keep = length x"
  have "filter snd (zip x keep) = zip x keep"
    using a by (auto simp: filter_id_conv list_all_iff dest: set_zip_rightD)
  then show ?thesis using l by (simp add: boolean_mask_def)
qed

lemma reweight_logits_forward: "reweight_logits cw train t n lg = Inr lg' \<Longrightarrow> lg' = lg"
  by (auto simp: reweight_logits_def class_reweighting_forward_def split: option.splits if_splits)

lemma greater_mask_nth:
  "i < length probs \<Longrightarrow> greater_mask probs thresh ! i = (\<exists>p. probs ! i = Some p \<and> thresh < p)"
  by (auto simp: greater_mask_def split: option.splits)

lemma tf_exp_unit: "l \<le> 0 \<Longrightarrow> 0 \<le> tf_exp l \<and> tf_exp l \<le> 1"
  by (simp add: tf_exp_def)

lemma crf_probabilities:
  assumes "sequence_probabilities True lg tags lens tr u_probs = Inr probs"
  shows "list_all (\<lambda>p. \<exists>x. p = Some x \<and> 0 \<le> x \<and> x \<le> 1) probs"
proof -
  obtain ll where c: "crf_log_likelihood lg tags lens tr = Inr ll" and p: "probs = map (\<lambda>l. Some (tf_exp l)) ll"
    using assms by (auto simp: sequence_probabilities_def split: sum.splits)
  have "list_all (\<lambda>l. l \<le> 0) ll" using crf_log_likelihood_nonpos(1)[OF c] .
  then show ?thesis unfolding p by (auto simp: list_all_iff tf_exp_unit)
qed

lemma fold_max_unit:
  assumes "0 < x \<and> x \<le> (1::real)" "list_all (\<lambda>q. 0 < q \<and> q \<le> 1) xs"
  shows "0 < fold max xs x \<and> fold max xs x \<le> 1"
  using assms by (induction xs arbitrary: x) (auto simp: max_def)

lemma sum_unit_bounds:
  assumes "list_all (\<lambda>q. 0 < q \<and> q \<le> (1::real)) xs" "xs \<noteq> []"
  shows "0 < sum_list xs \<and> sum_list xs \<le> real (length xs)"
  using assms
proof (induction xs)
  case Nil
  then show ?case by simp
next
  case (Cons a xs)
  show ?case
  proof (cases "xs = []")
    case True
    then show ?thesis using Cons.prems by simp
  next
    case False
    then show ?thesis using Cons by simp
  qed
qed

lemma softmax_probabilities:
  assumes "probability_rows u_probs"
  shows "list_all (\<lambda>p. \<exists>x. p = Some x \<and> 0 < x \<and> x \<le> 1) (map row_probability u_probs)"
  unfolding list_all_iff
proof
  fix p assume "p \<in> set (map row_probability u_probs)"
  then obtain row where row: "row \<in> set u_probs" and p: "p = row_probability row" by auto
  have ne: "row \<noteq> []" and toks: "\<forall>tok\<in>set row. tok \<noteq> [] \<and> list_all (\<lambda>q. 0 < q \<and> q \<le> 1) tok"
    using assms row by (auto simp: probability_rows_def list_all_iff)
  let ?m = "map (\<lambda>tok. fold max (tl tok) (hd tok)) row"
  have "list_all (\<lambda>q. 0 < q \<and> q \<le> 1) ?m"
    unfolding list_all_iff
  proof
    fix q assume "q \<in> set ?m"
    then obtain tok where t: "tok \<in> set row" and q: "q = fold max (tl tok) (hd tok)" by auto
    obtain a as where tok: "tok = a # as" using toks t by (cases tok) auto
    have "0 < a \<and> a \<le> 1" "list_all (\<lambda>q. 0 < q \<and> q \<le> 1) as"
      using toks t tok by auto
    then show "0 < q \<and> q \<le> 1" unfolding q tok using fold_max_unit by simp
  qed
  moreover have "?m \<noteq> []" using ne by simp
  ultimately have b: "0 < sum_list ?m \<and> sum_list ?m \<le> real (length ?m)" by (rule sum_unit_bounds)
  have "\<not> list_ex (\<lambda>tok. tok = []) row" using toks by (auto simp: list_ex_iff)
  then have "p = Some (sum_list ?m / real (length row))"
    using ne by (simp add: p row_probability_def)
  moreover have "0 < sum_list ?m / real (length row)" using b ne by simp
  moreover have "sum_list ?m / real (length row) \<le> 1" using b ne by simp
  ultimately show "\<exists>x. p = Some x \<and> 0 < x \<and> x \<le> 1" by blast
qed

lemma mask_at_one:
  "list_all (\<lambda>p. \<exists>x. p = Some x \<and> 0 \<le> x \<and> x \<le> 1) probs \<Longrightarrow> list_all (\<lambda>k. \<not> k) (greater_mask probs 1)"
  by (auto simp: greater_mask_def list_all_iff)

lemma mask_at_zero:
  assumes "list_all (\<lambda>p. \<exists>x. p = Some x \<and> 0 \<le> x \<and> x \<le> 1) probs" "i < length probs"
  shows "greater_mask probs 0 ! i = (probs ! i \<noteq> Some 0)"
proof -
  obtain x where "probs ! i = Some x" "0 \<le> x"
    using assms by (auto simp: list_all_length)
  then show ?thesis using assms(2) by (auto simp: greater_mask_def)
qed

lemma mask_all_kept:
  assumes "list_all (\<lambda>p. \<exists>x. p = Some x \<and> 0 \<le> x \<and> x \<le> 1) probs" "list_all (\<lambda>p. p \<noteq> Some 0) probs"
  shows "list_all (\<lambda>k. k) (greater_mask probs 0)"
  unfolding list_all_length
proof (intro allI impI)
  fix i assume "i < length (greater_mask probs 0)"
  then have i: "i < length probs" by (simp add: greater_mask_def)
  then have "probs ! i \<noteq> Some 0" using assms(2) by (simp add: list_all_length)
  then show "greater_mask probs 0 ! i" using mask_at_zero[OF assms(1) i] by simp
qed

lemma pseudo_label_result:
  assumes d: "dense vars (n_embed config) n_targets hidden = Inr all_logits"
    and l: "all_lengths = (case lengths of None \<Rightarrow> default_lengths hidden | Some l \<Rightarrow> l)"
    and tr: "get_variable2 vars ''Transition_matrix'' n_targets n_targets = Inr tr"
    and dec: "sequence_decode env (drop (length targets) all_logits) tr (drop (length targets) all_lengths) use_crf
                = (u_targets, u_probs)"
    and p: "sequence_probabilities use_crf (drop (length targets) all_logits) u_targets
                (drop (length targets) all_lengths) tr u_probs = Inr u_seq_probs"
    and k: "keep = greater_mask u_seq_probs (pseudo_thresh config)"
    and shp: "length u_seq_probs = length (drop (length targets) all_logits)"
             "length (drop (length targets) all_lengths) = length (drop (length targets) all_logits)"
             "length u_targets = length (drop (length targets) all_logits)"
    and rw: "reweight_logits class_weights train (Some (targets @ boolean_mask u_targets keep)) n_targets
               (take (length targets) all_logits @ boolean_mask (drop (length targets) all_logits) keep) = Inr lg"
    and ls: "labeler_loss n_targets use_crf (targets @ boolean_mask u_targets keep) lg
               (take (length targets) all_lengths @ boolean_mask (drop (length targets) all_lengths) keep) tr
               = Inr loss"
  shows "pseudo_label env vars hidden (Some targets) n_targets config train lengths use_crf class_weights =
     Inr \<lparr>logits = take (length targets) all_logits @ boolean_mask (drop (length targets) all_logits) keep,
          losses = Some loss,
          predict_params = \<lparr>transition_matrix = Transition tr,
             sequence_length = take (length targets) all_lengths
                                 @ boolean_mask (drop (length targets) all_lengths) keep\<rparr>\<rparr>"
proof -
  have lg: "lg = take (length targets) all_logits @ boolean_mask (drop (length targets) all_logits) keep"
    using rw by (rule reweight_logits_forward)
  have lk: "length (greater_mask u_seq_probs (pseudo_thresh config)) = length u_seq_probs"
    by (simp add: greater_mask_def)
  show ?thesis
    using d tr dec p shp rw ls lk unfolding k lg l[symmetric] pseudo_label_def
    by (simp add: Let_def l[symmetric])
qed

text \<open>
  C5 (as the code has it). \<^verbatim>\<open>pseudo_label\<close> returns the labeled rows followed by exactly
  those unlabeled rows whose sequence probability is strictly greater than
  \<^verbatim>\<open>pseudo_thresh\<close>, with their lengths, and the loss of that batch with the decoded tags as
  the targets of the appended rows. With a threshold of 1 no unlabeled row is kept. With a
  threshold of 0 the rows kept are those whose probability is not \<open>0.0\<close>: all of them
  without the CRF (for per-token probabilities of the decoder in (0, 1]); with the CRF,
  all of them when no \<^verbatim>\<open>tf.exp\<close> of a log-likelihood has underflowed to \<open>0.0\<close>.
\<close>

theorem pseudo_label_threshold:
  assumes d: "dense vars (n_embed config) n_targets hidden = Inr all_logits"
    and l: "all_lengths = (case lengths of None \<Rightarrow> default_lengths hidden | Some l \<Rightarrow> l)"
    and tr: "get_variable2 vars ''Transition_matrix'' n_targets n_targets = Inr tr"
    and dec: "sequence_decode env (drop (length targets) all_logits) tr (drop (length targets) all_lengths) use_crf
                = (u_targets, u_probs)"
    and p: "sequence_probabilities use_crf (drop (length targets) all_logits) u_targets
                (drop (length targets) all_lengths) tr u_probs = Inr u_seq_probs"
    and k: "keep = greater_mask u_seq_probs (pseudo_thresh config)"
    and shp: "length u_seq_probs = length (drop (length targets) all_logits)"
             "length (drop (length targets) all_lengths) = length (drop (length targets) all_logits)"
             "length u_targets = length (drop (length targets) all_logits)"
    and rw: "reweight_logits class_weights train (Some (targets @ boolean_mask u_targets keep)) n_targets
               (take (length targets) all_logits @ boolean_mask (drop (length targets) all_logits) keep) = Inr lg"
    and ls: "labeler_loss n_targets use_crf (targets @ boolean_mask u_targets keep) lg
               (take (length targets) all_lengths @ boolean_mask (drop (length targets) all_lengths) keep) tr
               = Inr loss"
    and prob: "use_crf \<or> probability_rows u_probs"
  shows "pseudo_label env vars hidden (Some targets) n_targets config train lengths use_crf class_weights =
           Inr \<lparr>logits = take (length targets) all_logits @ boolean_mask (drop (length targets) all_logits) keep,
                losses = Some loss,
                predict_params = \<lparr>transition_matrix = Transition tr,
                   sequence_length = take (length targets) all_lengths
                                       @ boolean_mask (drop (length targets) all_lengths) keep\<rparr>\<rparr>
         \<and> (\<forall>i<length u_seq_probs. keep ! i = (\<exists>x. u_seq_probs ! i = Some x \<and> pseudo_thresh config < x))
         \<and> (pseudo_thresh config = 1 \<longrightarrow>
               pseudo_label env vars hidden (Some targets) n_targets config train lengths use_crf class_weights =
                 Inr \<lparr>logits = take (length targets) all_logits, losses = Some loss,
                      predict_params = \<lparr>transition_matrix = Transition tr,
                         sequence_length = take (length targets) all_lengths\<rparr>\<rparr>)
         \<and> (pseudo_thresh config = 0 \<longrightarrow>
               (\<forall>i<length u_seq_probs. keep ! i = (u_seq_probs ! i \<noteq> Some 0))
               \<and> (list_all (\<lambda>q. q \<noteq> Some 0) u_seq_probs \<longrightarrow>
                    pseudo_label env vars hidden (Some targets) n_targets config train lengths use_crf
                        class_weights =
                      Inr \<lparr>logits = all_logits, losses = Some loss,
                           predict_params = \<lparr>transition_matrix = Transition tr,
                              sequence_length = all_lengths\<rparr>\<rparr>))
         \<and> (\<not> use_crf \<longrightarrow> list_all (\<lambda>q. q \<noteq> Some 0) u_seq_probs)"
proof -
  note res = pseudo_label_result[OF d l tr dec p k shp rw ls]
  have pos: "list_all (\<lambda>p. \<exists>x. p = Some x \<and> 0 < x \<and> x \<le> 1) u_seq_probs" if "\<not> use_crf"
  proof -
    have "u_seq_probs = map row_probability u_probs"
      using p that by (simp add: sequence_probabilities_def)
    then show ?thesis using prob that softmax_probabilities by simp
  qed
  have unit: "list_all (\<lambda>p. \<exists>x. p = Some x \<and> 0 \<le> x \<and> x \<le> 1) u_seq_probs"
  proof (cases use_crf)
    case True
    then have "sequence_probabilities True (drop (length targets) all_logits) u_targets
                (drop (length targets) all_lengths) tr u_probs = Inr u_seq_probs"
      using p by simp
    then show ?thesis by (rule crf_probabilities)
  next
    case False
    then show ?thesis using pos by (auto simp: list_all_iff)
  qed
  have lk: "length keep = length u_seq_probs" by (simp add: k greater_mask_def)
  show ?thesis
  proof (intro conjI impI allI)
    show "pseudo_label env vars hidden (Some targets) n_targets config train lengths use_crf class_weights =
           Inr \<lparr>logits = take (length targets) all_logits @ boolean_mask (drop (length targets) all_logits) keep,
                losses = Some loss,
                predict_params = \<lparr>transition_matrix = Transition tr,
                   sequence_length = take (length targets) all_lengths
                                       @ boolean_mask (drop (length targets) all_lengths) keep\<rparr>\<rparr>"
      by (rule res)
  next
    fix i assume "i < length u_seq_probs"
    then show "keep ! i = (\<exists>x. u_seq_probs ! i = Some x \<and> pseudo_thresh config < x)"
      unfolding k by (rule greater_mask_nth)
  next
    assume "pseudo_thresh config = 1"
    then have "list_all (\<lambda>kp. \<not> kp) keep" using mask_at_one[OF unit] by (simp add: k)
    then have "boolean_mask (drop (length targets) all_logits) keep = []"
        "boolean_mask (drop (length targets) all_lengths) keep = []"
      by (simp_all add: boolean_mask_none)
    then show "pseudo_label env vars hidden (Some targets) n_targets config train lengths use_crf class_weights =
                 Inr \<lparr>logits = take (length targets) all_logits, losses = Some loss,
                      predict_params = \<lparr>transition_matrix = Transition tr,
                         sequence_length = take (length targets) all_lengths\<rparr>\<rparr>"
      using res by simp
  next
    fix i assume "pseudo_thresh config = 0" "i < length u_seq_probs"
    then show "keep ! i = (u_seq_probs ! i \<noteq> Some 0)"
      using mask_at_zero[OF unit] by (simp add: k)
  next
    assume z: "pseudo_thresh config = 0" and nz: "list_all (\<lambda>q. q \<noteq> Some 0) u_seq_probs"
    have "list_all (\<lambda>kp. kp) keep" using mask_all_kept[OF unit nz] z by (simp add: k)
    then have "boolean_mask (drop (length targets) all_logits) keep = drop (length targets) all_logits"
        "boolean_mask (drop (length targets) all_lengths) keep = drop (length targets) all_lengths"
      using lk shp by (simp_all add: boolean_mask_all)
    then show "pseudo_label env vars hidden (Some targets) n_targets config train lengths use_crf
                        class_weights =
                      Inr \<lparr>logits = all_logits, losses = Some loss,
                           predict_params = \<lparr>transition_matrix = Transition tr,
                              sequence_length = all_lengths\<rparr>\<rparr>"
      using res by simp
  next
    assume "\<not> use_crf"
    then show "list_all (\<lambda>q. q \<noteq> Some 0) u_seq_probs"
      using pos by (auto simp: list_all_iff)
  qed
qed

lemma pseudo_dense:
  "dense ssl_vars (n_embed (pseudo_config thresh)) 2 [[[1]], [[2]]] = Inr [[[1, 0]], [[2, 0]]]"
  using ssl_dense2[of None 1 2] by (simp add: pseudo_config_def)

lemma pseudo_decode:
  "sequence_decode plain_env [[[2, 0]]] [[0, 0], [0, 0]] [Suc 0] True = ([[0]], [[[2, 0]]])"
  by (simp add: plain_env_def)

lemma crf_row_one_token:
  "crf_row_log_likelihood [[0, 0], [0, 0]] [[x, 0]] [0] (Suc 0) = x - ln (exp x + 1)"
  by (simp add: crf_row_log_likelihood_def crf_sequence_score_def crf_unary_score_def crf_binary_score_def
      crf_log_norm_def logsumexp_def)

lemma tf_exp_one_token:
  assumes "0 \<le> x"
  shows "tf_exp (x - ln (exp x + 1)) = exp x / (exp x + 1)" "0 < exp x / (exp x + 1)"
    "exp x / (exp x + 1) \<le> 1"
proof -
  have p: "0 < exp x + 1" by (simp add: add_pos_pos)
  have e: "exp (x - ln (exp x + 1)) = exp x / (exp x + 1)"
    using p by (simp add: exp_diff)
  have "1 \<le> exp x" using assms by simp
  then have "1 / 2 \<le> exp x / (exp x + 1)" using p by (simp add: field_simps)
  moreover have "(1::real) / 2 ^ 150 < 1 / 2" by simp
  ultimately have "\<not> exp x / (exp x + 1) \<le> 1 / 2 ^ 150" by linarith
  then show "tf_exp (x - ln (exp x + 1)) = exp x / (exp x + 1)" by (simp add: tf_exp_def e)
  show "0 < exp x / (exp x + 1)" using p by simp
  show "exp x / (exp x + 1) \<le> 1" using p by (simp add: field_simps)
qed

lemma pseudo_probabilities:
  "sequence_probabilities True [[[2, 0]]] [[0]] [Suc 0] [[0, 0], [0, 0]] [[[2, 0]]]
     = Inr [Some (exp 2 / (exp 2 + 1))]"
  by (simp add: sequence_probabilities_def crf_one_token crf_row_one_token tf_exp_one_token(1))

lemma crf_two_tokens:
  "crf_log_likelihood [[[1, 0]], [[2, 0]]] [[0], [0]] [Suc 0, Suc 0] [[0, 0], [0, 0]] =
     Inr [1 - ln (exp 1 + 1), 2 - ln (exp 2 + 1)]"
  by (simp add: crf_log_likelihood_def crf_row_ok_def rectangular_def crf_row_one_token)

theorem pseudo_label_threshold_witness:
  "pseudo_label plain_env ssl_vars [[[1]], [[2]]] (Some [[0]]) 2 (pseudo_config 1) False None True None =
     Inr \<lparr>logits = [[[1, 0]]], losses = Some (Vector [ln (exp 1 + 1) - 1]),
          predict_params = \<lparr>transition_matrix = Transition [[0, 0], [0, 0]], sequence_length = [Suc 0]\<rparr>\<rparr> \<and>
   pseudo_label plain_env ssl_vars [[[1]], [[2]]] (Some [[0]]) 2 (pseudo_config 0) False None True None =
     Inr \<lparr>logits = [[[1, 0]], [[2, 0]]],
          losses = Some (Vector [ln (exp 1 + 1) - 1, ln (exp 2 + 1) - 2]),
          predict_params = \<lparr>transition_matrix = Transition [[0, 0], [0, 0]],
                             sequence_length = [Suc 0, Suc 0]\<rparr>\<rparr>"
proof -
  have l: "[Suc 0, Suc 0] = (case None of None \<Rightarrow> default_lengths [[[1]], [[2]]] | Some l \<Rightarrow> l)"
    by (simp add: default_lengths_def)
  have dec: "sequence_decode plain_env (drop (length [[0::nat]]) [[[1, 0]], [[2, 0]]]) [[0, 0], [0, 0]]
      (drop (length [[0::nat]]) [Suc 0, Suc 0]) True = ([[0]], [[[2, 0]]])"
    using pseudo_decode by simp
  have p: "sequence_probabilities True (drop (length [[0::nat]]) [[[1, 0]], [[2, 0]]]) [[0]]
      (drop (length [[0::nat]]) [Suc 0, Suc 0]) [[0, 0], [0, 0]] [[[2, 0]]]
        = Inr [Some (exp 2 / (exp 2 + 1))]"
    using pseudo_probabilities by simp
  have k1: "[False] = greater_mask [Some (exp 2 / (exp 2 + 1))] (pseudo_thresh (pseudo_config 1))"
    using tf_exp_one_token(3)[of 2] by (simp add: greater_mask_def pseudo_config_def)
  have k0: "[True] = greater_mask [Some (exp 2 / (exp 2 + 1))] (pseudo_thresh (pseudo_config 0))"
    using tf_exp_one_token(2)[of 2] by (simp add: greater_mask_def pseudo_config_def)
  have shp: "length [Some (exp 2 / (exp 2 + 1) :: real)] = length (drop (length [[0::nat]]) [[[1, 0]], [[2, 0::real]]])"
      "length (drop (length [[0::nat]]) [Suc 0, Suc 0]) = length (drop (length [[0::nat]]) [[[1, 0]], [[2, 0::real]]])"
      "length [[0::nat]] = length (drop (length [[0::nat]]) [[[1, 0]], [[2, 0::real]]])"
    by simp_all
  have rw1: "reweight_logits None False (Some ([[0]] @ boolean_mask [[0]] [False])) 2
      (take (length [[0::nat]]) [[[1, 0]], [[2, 0]]]
         @ boolean_mask (drop (length [[0::nat]]) [[[1, 0]], [[2, 0]]]) [False]) = Inr [[[1, 0]]]"
    by (simp add: reweight_logits_def boolean_mask_def)
  have rw0: "reweight_logits None False (Some ([[0]] @ boolean_mask [[0]] [True])) 2
      (take (length [[0::nat]]) [[[1, 0]], [[2, 0]]]
         @ boolean_mask (drop (length [[0::nat]]) [[[1, 0]], [[2, 0]]]) [True]) = Inr [[[1, 0]], [[2, 0]]]"
    by (simp add: reweight_logits_def boolean_mask_def)
  have ls1: "labeler_loss 2 True ([[0]] @ boolean_mask [[0]] [False]) [[[1, 0]]]
      (take (length [[0::nat]]) [Suc 0, Suc 0] @ boolean_mask (drop (length [[0::nat]]) [Suc 0, Suc 0]) [False])
      [[0, 0], [0, 0]] = Inr (Vector [ln (exp 1 + 1) - 1])"
    by (simp add: labeler_loss_def boolean_mask_def crf_one_token crf_row_one_token)
  have ls0: "labeler_loss 2 True ([[0]] @ boolean_mask [[0]] [True]) [[[1, 0]], [[2, 0]]]
      (take (length [[0::nat]]) [Suc 0, Suc 0] @ boolean_mask (drop (length [[0::nat]]) [Suc 0, Suc 0]) [True])
      [[0, 0], [0, 0]] = Inr (Vector [ln (exp 1 + 1) - 1, ln (exp 2 + 1) - 2])"
    by (simp add: labeler_loss_def boolean_mask_def crf_two_tokens)
  have c: "True \<or> probability_rows [[[2, 0]]]" by simp
  have t1: "pseudo_thresh (pseudo_config 1) = 1" and t0: "pseudo_thresh (pseudo_config 0) = 0"
    by (simp_all add: pseudo_config_def)
  have nz: "list_all (\<lambda>q. q \<noteq> Some 0) [Some (exp 2 / (exp 2 + 1) :: real)]"
  proof -
    have "0 < exp 2 / (exp 2 + 1 :: real)" by (rule tf_exp_one_token(2)) simp
    then have "exp 2 / (exp 2 + 1) \<noteq> (0::real)" by (metis less_irrefl)
    then show ?thesis by simp
  qed
  note th1 = pseudo_label_threshold[OF pseudo_dense l ssl_transition dec p k1 shp rw1 ls1 c]
  note th0 = pseudo_label_threshold[OF pseudo_dense l ssl_transition dec p k0 shp rw0 ls0 c]
  have a: "pseudo_label plain_env ssl_vars [[[1]], [[2]]] (Some [[0]]) 2 (pseudo_config 1) False None True None =
     Inr \<lparr>logits = [[[1, 0]]], losses = Some (Vector [ln (exp 1 + 1) - 1]),
          predict_params = \<lparr>transition_matrix = Transition [[0, 0], [0, 0]], sequence_length = [Suc 0]\<rparr>\<rparr>"
    using th1[THEN conjunct2, THEN conjunct2, THEN conjunct1] t1 by simp
  have b: "pseudo_label plain_env ssl_vars [[[1]], [[2]]] (Some [[0]]) 2 (pseudo_config 0) False None True None =
     Inr \<lparr>logits = [[[1, 0]], [[2, 0]]],
          losses = Some (Vector [ln (exp 1 + 1) - 1, ln (exp 2 + 1) - 2]),
          predict_params = \<lparr>transition_matrix = Transition [[0, 0], [0, 0]],
                             sequence_length = [Suc 0, Suc 0]\<rparr>\<rparr>"
    using th0[THEN conjunct2, THEN conjunct2, THEN conjunct2, THEN conjunct1] t0 nz by simp
  show ?thesis using a b by (simp only: simp_thms)
qed

lemma sum_list_zero: "(\<And>x. x \<in> set xs \<Longrightarrow> f x = (0::real)) \<Longrightarrow> sum_list (map f xs) = 0"
  by (induction xs) simp_all

lemma scan_fn_level: "scan_fn [[0, 0], [0, 0]] [a, a] [0, 0] = [a + ln 2, a + ln 2]"
proof -
  have "ln (exp a + exp a) = a + ln 2"
  proof -
    have "exp a + exp a = exp a * 2" by simp
    then have "ln (exp a + exp a) = ln (exp a * 2)" by simp
    also have "\<dots> = ln (exp a) + ln 2" by (rule ln_mult_pos) simp_all
    finally show ?thesis by simp
  qed
  then show ?thesis by (simp add: scan_fn_def logsumexp_def)
qed

lemma crf_forward_level:
  "k < m \<Longrightarrow> crf_forward [[0, 0], [0, 0]] (replicate m [0, 0]) k = [real k * ln 2, real k * ln 2]"
proof (induction k)
  case 0
  then show ?case by simp
next
  case (Suc k)
  then have "crf_forward [[0, 0], [0, 0]] (replicate m [0, 0]) k = [real k * ln 2, real k * ln 2]" by simp
  then show ?case using Suc.prems by (simp add: scan_fn_level algebra_simps)
qed

lemma crf_row_level:
  assumes "0 < m"
  shows "crf_row_log_likelihood [[0, 0], [0, 0]] (replicate m [0, 0]) (replicate m 0) m = - (real m * ln 2)"
proof -
  obtain k where m: "m = Suc k" using assms by (cases m) simp_all
  have u: "crf_unary_score (replicate m 0) m (replicate m [0, 0]) = 0"
    unfolding crf_unary_score_def by (rule sum_list_zero) simp
  have b: "crf_binary_score (replicate m 0) m [[0, 0], [0, 0]] = 0"
    unfolding crf_binary_score_def
  proof (rule sum_list_zero)
    fix t assume "t \<in> set [1..<m]"
    then have "t - 1 < m" "t < m" by auto
    then show "[[0, 0], [0, 0]] ! (replicate m 0 ! (t - 1)) ! (replicate m 0 ! t) = (0::real)" by simp
  qed
  have f: "crf_forward [[0, 0], [0, 0]] (replicate m [0, 0]) k = [real k * ln 2, real k * ln 2]"
    by (rule crf_forward_level) (simp add: m)
  have "ln (exp (real k * ln 2) + exp (real k * ln 2)) = real k * ln 2 + ln 2"
  proof -
    have "exp (real k * ln 2) + exp (real k * ln 2) = exp (real k * ln 2) * 2" by simp
    then have "ln (exp (real k * ln 2) + exp (real k * ln 2)) = ln (exp (real k * ln 2) * 2)" by simp
    also have "\<dots> = ln (exp (real k * ln 2)) + ln 2" by (rule ln_mult_pos) simp_all
    finally show ?thesis by simp
  qed
  then have n: "crf_log_norm (replicate m [0, 0]) m [[0, 0], [0, 0]] = real m * ln 2"
    using f by (simp add: crf_log_norm_def m logsumexp_def algebra_simps)
  show ?thesis by (simp add: crf_row_log_likelihood_def crf_sequence_score_def u b n)
qed

lemma crf_long_row:
  "0 < m \<Longrightarrow> crf_log_likelihood [replicate m [0, 0]] [replicate m 0] [m] [[0, 0], [0, 0]]
     = Inr [- (real m * ln 2)]"
  by (simp add: crf_log_likelihood_def crf_row_ok_def rectangular_def crf_row_level list_all_iff)

lemma tf_exp_underflow:
  assumes "150 \<le> m"
  shows "tf_exp (- (real m * ln 2)) = 0"
proof -
  have "exp (real m * ln 2) = 2 ^ m" by (simp add: exp_of_nat_mult)
  then have e: "exp (- (real m * ln 2)) = 1 / 2 ^ m" by (simp add: exp_minus inverse_eq_divide)
  have "(2::real) ^ 150 \<le> 2 ^ m" using assms by (intro power_increasing) simp_all
  then have "(1::real) / 2 ^ m \<le> 1 / 2 ^ 150" by (intro divide_left_mono) simp_all
  then show ?thesis by (simp only: tf_exp_def e if_True)
qed

lemma dense_long_rows:
  "dense ssl_vars (n_embed (pseudo_config thresh)) 2 [replicate m [0], replicate m [0]]
     = Inr [replicate m [0, 0], replicate m [0, 0]]"
  by (simp add: dense_def ssl_vars_def ssl_config_def pseudo_config_def get_variable2_def get_variable1_def
      has_shape2_def rectangular_def affine_row_def transpose_rows_def dot_def list_all_iff)

text \<open>
  The claim as stated fails with the CRF at a threshold of 0. One labeled and one
  unlabeled row of 200 tokens, all logits and transitions 0: the decoded row has
  log-likelihood \<open>- 200 * ln 2\<close>, whose \<^verbatim>\<open>tf.exp\<close> is \<open>0.0\<close> in float32; \<open>0.0 > 0.0\<close> is false
  and the unlabeled row is dropped.
\<close>

theorem pseudo_label_underflow_counterexample:
  "pseudo_thresh (pseudo_config 0) = 0 \<and>
   sequence_probabilities True [replicate 200 [0, 0]] [replicate 200 0] [200] [[0, 0], [0, 0]]
       [replicate 200 [0, 0]] = Inr [Some 0] \<and>
   pseudo_label plain_env ssl_vars [replicate 200 [0], replicate 200 [0]] (Some [replicate 200 0]) 2
       (pseudo_config 0) False None True None =
     Inr \<lparr>logits = [replicate 200 [0, 0]], losses = Some (Vector [200 * ln 2]),
          predict_params = \<lparr>transition_matrix = Transition [[0, 0], [0, 0]], sequence_length = [200]\<rparr>\<rparr>"
proof -
  have t0: "pseudo_thresh (pseudo_config 0) = 0" by (simp add: pseudo_config_def)
  have c: "crf_log_likelihood [replicate 200 [0, 0]] [replicate 200 0] [200] [[0, 0], [0, 0]]
      = Inr [- (200 * ln 2)]"
    using crf_long_row[of 200] by simp
  have u: "tf_exp (- (200 * ln 2)) = 0" using tf_exp_underflow[of 200] by simp
  have p: "sequence_probabilities True [replicate 200 [0, 0]] [replicate 200 0] [200] [[0, 0], [0, 0]]
       [replicate 200 [0, 0]] = Inr [Some 0]"
    by (simp add: sequence_probabilities_def c u)
  have l: "[200, 200] = (case None of None \<Rightarrow> default_lengths [replicate 200 [0], replicate 200 [0::real]]
      | Some l \<Rightarrow> l)"
    by (simp add: default_lengths_def)
  have dec: "sequence_decode plain_env (drop (length [replicate 200 (0::nat)])
        [replicate 200 [0, 0], replicate 200 [0, 0]]) [[0, 0], [0, 0]]
      (drop (length [replicate 200 (0::nat)]) [200, 200]) True
        = ([replicate 200 0], [replicate 200 [0, 0]])"
    by (simp add: plain_env_def)
  have p': "sequence_probabilities True (drop (length [replicate 200 (0::nat)])
        [replicate 200 [0, 0], replicate 200 [0, 0]]) [replicate 200 0]
      (drop (length [replicate 200 (0::nat)]) [200, 200]) [[0, 0], [0, 0]] [replicate 200 [0, 0]]
        = Inr [Some 0]"
    using p by simp
  have k: "[False] = greater_mask [Some 0] (pseudo_thresh (pseudo_config 0))"
    by (simp add: greater_mask_def t0)
  have rw: "reweight_logits None False (Some ([replicate 200 0] @ boolean_mask [replicate 200 0] [False])) 2
      (take (length [replicate 200 (0::nat)]) [replicate 200 [0, 0], replicate 200 [0, 0]]
         @ boolean_mask (drop (length [replicate 200 (0::nat)]) [replicate 200 [0, 0], replicate 200 [0, 0]])
             [False]) = Inr [replicate 200 [0, 0]]"
    by (simp add: reweight_logits_def boolean_mask_def)
  have ls: "labeler_loss 2 True ([replicate 200 0] @ boolean_mask [replicate 200 0] [False])
      [replicate 200 [0, 0]]
      (take (length [replicate 200 (0::nat)]) [200, 200]
         @ boolean_mask (drop (length [replicate 200 (0::nat)]) [200, 200]) [False])
      [[0, 0], [0, 0]] = Inr (Vector [200 * ln 2])"
    by (simp add: labeler_loss_def boolean_mask_def c)
  have r: "pseudo_label plain_env ssl_vars [replicate 200 [0], replicate 200 [0]] (Some [replicate 200 0]) 2
       (pseudo_config 0) False None True None =
     Inr \<lparr>logits = [replicate 200 [0, 0]], losses = Some (Vector [200 * ln 2]),
          predict_params = \<lparr>transition_matrix = Transition [[0, 0], [0, 0]], sequence_length = [200]\<rparr>\<rparr>"
    using pseudo_label_result[OF dense_long_rows l ssl_transition dec p' k _ _ _ rw ls]
    by (simp add: boolean_mask_def)
  show ?thesis using t0 p r by (simp only: simp_thms)
qed

subsection \<open>Multilabel decomposition into binary chains\<close>












end
